theory Spec2Isabelle
  imports Complex_Main
begin

section \<open>JavaScript values used by the controllers\<close>

text \<open>
  A request parameter or an optional document field is an \<open>option\<close>: \<open>None\<close> stands for
  \<open>undefined\<close> or \<open>null\<close>. Strings are \<open>string\<close>; the truthiness tests of the source
  (\<open>if (x)\<close>, \<open>x || y\<close>, \<open>!x\<close>) are written out for each type.
\<close>

fun truthy_str :: "string option \<Rightarrow> bool" where
  "truthy_str None = False"
| "truthy_str (Some s) = (s \<noteq> [])"

text \<open>
  \<open>String.prototype.toLowerCase\<close> on the ASCII letters; other characters are kept. The
  keyword table of the suggestion engine is ASCII.
\<close>

definition toLowerCase_char :: "char \<Rightarrow> char" where
  "toLowerCase_char c =
     (let n = (of_char c :: nat) in if 65 \<le> n \<and> n \<le> 90 then char_of (n + 32) else c)"

definition toLowerCase :: "string \<Rightarrow> string" where
  "toLowerCase s = map toLowerCase_char s"

text \<open>\<open>s.includes(p)\<close>: \<open>p\<close> occurs in \<open>s\<close> as a contiguous substring.\<close>

fun starts_with :: "string \<Rightarrow> string \<Rightarrow> bool" where
  "starts_with s [] = True"
| "starts_with [] (p # ps) = False"
| "starts_with (c # cs) (p # ps) = (c = p \<and> starts_with cs ps)"

fun str_includes :: "string \<Rightarrow> string \<Rightarrow> bool" where
  "str_includes [] p = (p = [])"
| "str_includes (c # cs) p = (starts_with (c # cs) p \<or> str_includes cs p)"

section \<open>Category directory\<close>

datatype cat_type = CIncome | CExpense | CBoth

record category =
  c_id :: nat
  c_name :: string
  c_type :: cat_type
  c_userId :: "nat option"
  c_isActive :: bool
  c_isDefault :: bool
  c_usageCount :: nat
  c_lastUsed :: "int option"
  c_parentCategory :: "nat option"

text \<open>\<open>Category.findById\<close>: the first document of the collection with that id.\<close>

definition findCategoryById :: "category list \<Rightarrow> nat \<Rightarrow> category option" where
  "findCategoryById cs i = find (\<lambda>c. c_id c = i) cs"

section \<open>Category suggestion engine (ocrController.js)\<close>

definition categoryPatterns :: "(string \<times> string list) list" where
  "categoryPatterns =
    [(''Food & Dining'', [''restaurant'', ''cafe'', ''pizza'', ''burger'', ''food'', ''kitchen'',
        ''diner'', ''grill'', ''bar'', ''pub'', ''starbucks'', ''mcdonald'', ''subway'', ''domino'']),
     (''Transportation'', [''gas'', ''fuel'', ''station'', ''shell'', ''exxon'', ''chevron'', ''bp'',
        ''uber'', ''lyft'', ''taxi'', ''metro'', ''bus'']),
     (''Shopping'', [''store'', ''shop'', ''mall'', ''walmart'', ''target'', ''amazon'', ''ebay'',
        ''retail'', ''boutique'']),
     (''Healthcare'', [''pharmacy'', ''hospital'', ''clinic'', ''medical'', ''health'', ''doctor'',
        ''cvs'', ''walgreens'']),
     (''Bills & Utilities'', [''electric'', ''water'', ''phone'', ''internet'', ''cable'', ''utility'',
        ''bill'', ''payment'']),
     (''Entertainment'', [''movie'', ''theater'', ''cinema'', ''game'', ''entertainment'', ''netflix'',
        ''spotify''])]"

text \<open>
  \<open>Category.findOne({name, $or: [{userId}, {isDefault: true}], isActive: true})\<close>, the
  directory lookup inside the loop.
\<close>

definition findUserCategoryByName :: "category list \<Rightarrow> nat \<Rightarrow> string \<Rightarrow> category option" where
  "findUserCategoryByName cs uid n =
     find (\<lambda>c. c_name c = n \<and> (c_userId c = Some uid \<or> c_isDefault c) \<and> c_isActive c) cs"

text \<open>
  \<open>Category.findOne({name: 'Other Expense', isDefault: true, isActive: true})\<close>, the
  fallback after the loop.
\<close>

definition findOtherExpense :: "category list \<Rightarrow> category option" where
  "findOtherExpense cs =
     find (\<lambda>c. c_name c = ''Other Expense'' \<and> c_isDefault c \<and> c_isActive c) cs"

text \<open>
  The inner loop \<open>for (const pattern of patterns)\<close>: a pattern that occurs in the merchant
  triggers the directory lookup; the loop returns only when the lookup finds a category and
  goes on to the next pattern otherwise.
\<close>

fun matchPatterns :: "category list \<Rightarrow> nat \<Rightarrow> string \<Rightarrow> string \<Rightarrow> string list \<Rightarrow> category option" where
  "matchPatterns cs uid merchant categoryName [] = None"
| "matchPatterns cs uid merchant categoryName (pattern # patterns) =
     (if str_includes merchant pattern
      then (case findUserCategoryByName cs uid categoryName of
              Some category \<Rightarrow> Some category
            | None \<Rightarrow> matchPatterns cs uid merchant categoryName patterns)
      else matchPatterns cs uid merchant categoryName patterns)"

text \<open>The outer loop over \<open>Object.entries(categoryPatterns)\<close>, in the order of the literal.\<close>

fun matchEntries :: "category list \<Rightarrow> nat \<Rightarrow> string \<Rightarrow> (string \<times> string list) list \<Rightarrow> category option" where
  "matchEntries cs uid merchant [] = None"
| "matchEntries cs uid merchant ((categoryName, patterns) # entries) =
     (case matchPatterns cs uid merchant categoryName patterns of
        Some category \<Rightarrow> Some category
      | None \<Rightarrow> matchEntries cs uid merchant entries)"

definition suggestCategoryFromMerchant :: "category list \<Rightarrow> nat \<Rightarrow> string option \<Rightarrow> category option" where
  "suggestCategoryFromMerchant cs userId merchantName =
     (case merchantName of
        None \<Rightarrow> None
      | Some name \<Rightarrow>
          if \<not> truthy_str (Some name) then None
          else (case matchEntries cs userId (toLowerCase name) categoryPatterns of
                  Some category \<Rightarrow> Some category
                | None \<Rightarrow> findOtherExpense cs))"

text \<open>
  \<open>processReceipt\<close> calls the engine only for a truthy \<open>ocrData.extractedMerchant\<close> and
  leaves \<open>suggestedCategory\<close> at \<open>null\<close> otherwise.
\<close>

definition processReceipt_suggestedCategory :: "category list \<Rightarrow> nat \<Rightarrow> string option \<Rightarrow> category option" where
  "processReceipt_suggestedCategory cs userId extractedMerchant =
     (if truthy_str extractedMerchant
      then suggestCategoryFromMerchant cs userId extractedMerchant
      else None)"

section \<open>Numbers\<close>

text \<open>
  A JavaScript number is modelled by an exact rational or one of the three special values;
  the rounding of doubles is not modelled. Amounts, sums and comparisons are over the
  rationals.
\<close>

datatype jsnum = NaN | Fin rat | PosInf | NegInf

fun truthy_num :: "jsnum option \<Rightarrow> bool" where
  "truthy_num None = False"
| "truthy_num (Some NaN) = False"
| "truthy_num (Some (Fin r)) = (r \<noteq> 0)"
| "truthy_num (Some PosInf) = True"
| "truthy_num (Some NegInf) = True"

text \<open>\<open>a / b\<close> on two finite numbers, \<open>Math.ceil\<close> and \<open>a < b\<close>.\<close>

definition js_div :: "rat \<Rightarrow> rat \<Rightarrow> jsnum" where
  "js_div a b =
     (if b = 0 then (if a = 0 then NaN else if 0 < a then PosInf else NegInf)
      else Fin (a / b))"

fun math_ceil :: "jsnum \<Rightarrow> jsnum" where
  "math_ceil (Fin r) = Fin (of_int \<lceil>r\<rceil>)"
| "math_ceil x = x"

fun js_lt :: "jsnum \<Rightarrow> jsnum \<Rightarrow> bool" where
  "js_lt NaN y = False"
| "js_lt x NaN = False"
| "js_lt (Fin a) (Fin b) = (a < b)"
| "js_lt (Fin a) PosInf = True"
| "js_lt (Fin a) NegInf = False"
| "js_lt PosInf y = False"
| "js_lt NegInf NegInf = False"
| "js_lt NegInf y = True"

subsection \<open>Decimal literals: \<open>parseFloat\<close> and the validator's \<open>isFloat\<close>\<close>

definition is_digit :: "char \<Rightarrow> bool" where
  "is_digit c = (48 \<le> (of_char c :: nat) \<and> (of_char c :: nat) \<le> 57)"

definition digit_val :: "char \<Rightarrow> nat" where
  "digit_val c = of_char c - 48"

definition digits_val :: "string \<Rightarrow> nat" where
  "digits_val ds = foldl (\<lambda>a c. 10 * a + digit_val c) 0 ds"

definition is_space :: "char \<Rightarrow> bool" where
  "is_space c = ((of_char c :: nat) \<in> {9, 10, 11, 12, 13, 32})"

text \<open>
  The exponent part \<open>[eE][+-]?[0-9]+\<close>, when the rest starts with one: the power of ten
  as a factor, and what follows it.
\<close>

definition parse_exponent :: "string \<Rightarrow> rat \<times> string" where
  "parse_exponent s =
     (case s of
        [] \<Rightarrow> (1, s)
      | c # r \<Rightarrow>
          if c = CHR ''e'' \<or> c = CHR ''E'' then
            (case r of
               [] \<Rightarrow> (1, s)
             | d # r' \<Rightarrow>
                 if d = CHR ''-'' then
                   (if takeWhile is_digit r' = [] then (1, s)
                    else (1 / 10 ^ digits_val (takeWhile is_digit r'), dropWhile is_digit r'))
                 else if d = CHR ''+'' then
                   (if takeWhile is_digit r' = [] then (1, s)
                    else (10 ^ digits_val (takeWhile is_digit r'), dropWhile is_digit r'))
                 else
                   (if takeWhile is_digit r = [] then (1, s)
                    else (10 ^ digits_val (takeWhile is_digit r), dropWhile is_digit r)))
          else (1, s))"

text \<open>An unsigned literal \<open>digits [. digits] [exponent]\<close> with at least one digit.\<close>

definition parse_unsigned :: "string \<Rightarrow> (rat \<times> string) option" where
  "parse_unsigned s =
     (let ip = takeWhile is_digit s;
          r1 = dropWhile is_digit s;
          fp = (case r1 of [] \<Rightarrow> [] | c # r \<Rightarrow> if c = CHR ''.'' then takeWhile is_digit r else []);
          r2 = (case r1 of [] \<Rightarrow> [] | c # r \<Rightarrow> if c = CHR ''.'' then dropWhile is_digit r else r1)
      in if ip = [] \<and> fp = [] then None
         else (let m = of_nat (digits_val ip) + of_nat (digits_val fp) / 10 ^ length fp;
                   e = parse_exponent r2
               in Some (m * fst e, snd e)))"

definition parse_signed :: "string \<Rightarrow> (rat \<times> string) option" where
  "parse_signed s =
     (case s of
        [] \<Rightarrow> None
      | c # r \<Rightarrow>
          if c = CHR ''-'' then map_option (\<lambda>(v, rest). (- v, rest)) (parse_unsigned r)
          else if c = CHR ''+'' then parse_unsigned r
          else parse_unsigned s)"

text \<open>
  \<open>parseFloat\<close>: leading white space is skipped, the longest prefix that is a decimal
  literal is read, anything after it is ignored, and \<open>NaN\<close> is the result when there is no
  such prefix. The literal \<open>Infinity\<close> is not modelled (it reads as \<open>NaN\<close> here).
\<close>

definition parseFloat :: "string \<Rightarrow> jsnum" where
  "parseFloat s =
     (case parse_signed (dropWhile is_space s) of None \<Rightarrow> NaN | Some (v, rest) \<Rightarrow> Fin v)"

text \<open>
  The validator chain \<open>.isFloat({ min: 0 })\<close>: the whole string is one decimal literal and
  its value is at least 0.
\<close>

definition isFloat_min0 :: "string \<Rightarrow> bool" where
  "isFloat_min0 s =
     (case parse_signed s of None \<Rightarrow> False | Some (v, rest) \<Rightarrow> rest = [] \<and> 0 \<le> v)"

text \<open>\<open>s.split(',')\<close>.\<close>

fun split_comma :: "string \<Rightarrow> string list" where
  "split_comma [] = [[]]"
| "split_comma (c # cs) =
     (if c = CHR '','' then [] # split_comma cs
      else (case split_comma cs of [] \<Rightarrow> [[c]] | w # ws \<Rightarrow> (c # w) # ws))"

section \<open>Transaction store\<close>

datatype txn_type = TIncome | TExpense

fun txn_type_name :: "txn_type \<Rightarrow> string" where
  "txn_type_name TIncome = ''income''"
| "txn_type_name TExpense = ''expense''"

fun cat_type_name :: "cat_type \<Rightarrow> string" where
  "cat_type_name CIncome = ''income''"
| "cat_type_name CExpense = ''expense''"
| "cat_type_name CBoth = ''both''"

record transaction =
  t_id :: nat
  t_title :: string
  t_description :: "string option"
  t_amount :: rat
  t_type :: txn_type
  t_category :: nat
  t_date :: int
  t_userId :: nat
  t_paymentMethod :: string
  t_tags :: "string list"
  t_locationName :: "string option"

record store =
  categories :: "category list"
  transactions :: "transaction list"

datatype error =
    AppError string nat
  | ValidationFailed
  | ValidationError string
  | Error string
  | MongoError string
  | TypeError string

section \<open>Query/filter builder (Transaction.getUserTransactions, getTransactions)\<close>

text \<open>
  The filter document the source assembles field by field. A date is its time stamp in
  milliseconds; \<open>q_or\<close> is the search text of the three-way \<open>$or\<close> of \<open>$regex\<close> tests.
\<close>

record date_range =
  d_gte :: "int option"
  d_lte :: "int option"

record amount_range =
  a_gte :: "jsnum option"
  a_lte :: "jsnum option"

record query =
  q_userId :: nat
  q_type :: "string option"
  q_category :: "nat option"
  q_paymentMethod :: "string option"
  q_date :: "date_range option"
  q_amount :: "amount_range option"
  q_tags :: "string list option"
  q_or :: "string option"

text \<open>The comparison of a stored amount with a bound of a range operator.\<close>

fun amount_gte :: "rat \<Rightarrow> jsnum \<Rightarrow> bool" where
  "amount_gte a (Fin b) = (b \<le> a)"
| "amount_gte a NegInf = True"
| "amount_gte a PosInf = False"
| "amount_gte a NaN = False"

fun amount_lte :: "rat \<Rightarrow> jsnum \<Rightarrow> bool" where
  "amount_lte a (Fin b) = (a \<le> b)"
| "amount_lte a PosInf = True"
| "amount_lte a NegInf = False"
| "amount_lte a NaN = False"

text \<open>
  Whether a document satisfies the filter. The regular-expression engine of the database is
  a parameter: \<open>rx pattern text\<close> says whether the case-insensitive \<open>pattern\<close> matches in
  \<open>text\<close>. A missing field matches no pattern.
\<close>

definition matches :: "(string \<Rightarrow> string \<Rightarrow> bool) \<Rightarrow> query \<Rightarrow> transaction \<Rightarrow> bool" where
  "matches rx q t =
     (t_userId t = q_userId q
      \<and> (case q_type q of None \<Rightarrow> True | Some ty \<Rightarrow> txn_type_name (t_type t) = ty)
      \<and> (case q_category q of None \<Rightarrow> True | Some c \<Rightarrow> t_category t = c)
      \<and> (case q_paymentMethod q of None \<Rightarrow> True | Some p \<Rightarrow> t_paymentMethod t = p)
      \<and> (case q_date q of None \<Rightarrow> True
          | Some r \<Rightarrow> (case d_gte r of None \<Rightarrow> True | Some d \<Rightarrow> d \<le> t_date t)
                    \<and> (case d_lte r of None \<Rightarrow> True | Some d \<Rightarrow> t_date t \<le> d))
      \<and> (case q_amount q of None \<Rightarrow> True
          | Some r \<Rightarrow> (case a_gte r of None \<Rightarrow> True | Some b \<Rightarrow> amount_gte (t_amount t) b)
                    \<and> (case a_lte r of None \<Rightarrow> True | Some b \<Rightarrow> amount_lte (t_amount t) b))
      \<and> (case q_tags q of None \<Rightarrow> True | Some ts \<Rightarrow> list_ex (\<lambda>x. x \<in> set ts) (t_tags t))
      \<and> (case q_or q of None \<Rightarrow> True
          | Some s \<Rightarrow> rx s (t_title t)
                    \<or> (case t_description t of None \<Rightarrow> False | Some d \<Rightarrow> rx s d)
                    \<or> (case t_locationName t of None \<Rightarrow> False | Some l \<Rightarrow> rx s l)))"

subsection \<open>Sort, skip and limit\<close>

datatype sort_field = SortDate | SortAmount | SortTitle | SortCategory

fun str_le :: "string \<Rightarrow> string \<Rightarrow> bool" where
  "str_le [] s = True"
| "str_le (c # cs) [] = False"
| "str_le (c # cs) (d # ds) =
     ((of_char c :: nat) < of_char d \<or> (c = d \<and> str_le cs ds))"

fun field_le :: "sort_field \<Rightarrow> transaction \<Rightarrow> transaction \<Rightarrow> bool" where
  "field_le SortDate a b = (t_date a \<le> t_date b)"
| "field_le SortAmount a b = (t_amount a \<le> t_amount b)"
| "field_le SortTitle a b = str_le (t_title a) (t_title b)"
| "field_le SortCategory a b = (t_category a \<le> t_category b)"

text \<open>
  \<open>sort[sortBy] = sortOrder === 'desc' ? -1 : 1\<close>. The sort is a stable insertion sort
  on the one key: documents with equal keys keep their order in the collection, which fixes
  the order the database leaves open.
\<close>

definition sort_le :: "sort_field \<Rightarrow> string \<Rightarrow> transaction \<Rightarrow> transaction \<Rightarrow> bool" where
  "sort_le sortBy sortOrder a b =
     (if sortOrder = ''desc'' then field_le sortBy b a else field_le sortBy a b)"

fun insert_doc :: "('a \<Rightarrow> 'a \<Rightarrow> bool) \<Rightarrow> 'a \<Rightarrow> 'a list \<Rightarrow> 'a list" where
  "insert_doc le x [] = [x]"
| "insert_doc le x (y # ys) = (if le x y then x # y # ys else y # insert_doc le x ys)"

definition sort_docs :: "('a \<Rightarrow> 'a \<Rightarrow> bool) \<Rightarrow> 'a list \<Rightarrow> 'a list" where
  "sort_docs le xs = foldr (insert_doc le) xs []"

text \<open>
  \<open>.limit(n)\<close> of the database cursor: 0 means no limit, a negative number is taken by
  its absolute value. \<open>.skip(n)\<close> with a negative number is rejected by the server.
\<close>

definition cursor_limit :: "int \<Rightarrow> 'a list \<Rightarrow> 'a list" where
  "cursor_limit n xs = (if n = 0 then xs else take (nat \<bar>n\<bar>) xs)"

record options =
  o_page :: int
  o_limit :: int
  o_type :: "string option"
  o_category :: "nat option"
  o_startDate :: "int option"
  o_endDate :: "int option"
  o_minAmount :: "jsnum option"
  o_maxAmount :: "jsnum option"
  o_paymentMethod :: "string option"
  o_tags :: "string list option"
  o_search :: "string option"
  o_sortBy :: sort_field
  o_sortOrder :: string

text \<open>The \<open>query\<close> object built in \<open>getUserTransactions\<close> (User.js, "Build query").\<close>

definition userTransactionsQuery :: "nat \<Rightarrow> options \<Rightarrow> query" where
  "userTransactionsQuery userId opts =
     \<lparr> q_userId = userId,
       q_type = (if truthy_str (o_type opts) then o_type opts else None),
       q_category = o_category opts,
       q_paymentMethod = (if truthy_str (o_paymentMethod opts) then o_paymentMethod opts else None),
       q_date =
         (if o_startDate opts \<noteq> None \<or> o_endDate opts \<noteq> None
          then Some \<lparr> d_gte = o_startDate opts, d_lte = o_endDate opts \<rparr>
          else None),
       q_amount =
         (if truthy_num (o_minAmount opts) \<or> truthy_num (o_maxAmount opts)
          then Some \<lparr> a_gte = (if truthy_num (o_minAmount opts) then o_minAmount opts else None),
                      a_lte = (if truthy_num (o_maxAmount opts) then o_maxAmount opts else None) \<rparr>
          else None),
       q_tags =
         (case o_tags opts of
            None \<Rightarrow> None
          | Some ts \<Rightarrow> if 0 < length ts then Some ts else None),
       q_or = (if truthy_str (o_search opts) then o_search opts else None) \<rparr>"

text \<open>
  \<open>this.find(query).sort(sort).skip(skip).limit(limit)\<close>. The two \<open>populate\<close> calls
  replace references by the referenced documents and select nothing; they are left out.
\<close>

definition getUserTransactions ::
  "(string \<Rightarrow> string \<Rightarrow> bool) \<Rightarrow> transaction list \<Rightarrow> nat \<Rightarrow> options \<Rightarrow> error + transaction list" where
  "getUserTransactions rx txns userId opts =
     (let query = userTransactionsQuery userId opts;
          sorted = sort_docs (sort_le (o_sortBy opts) (o_sortOrder opts)) (filter (matches rx query) txns);
          skip = (o_page opts - 1) * o_limit opts
      in if skip < 0 then Inl (MongoError ''Skip value must be non-negative'')
         else Inr (cursor_limit (o_limit opts) (drop (nat skip) sorted)))"

text \<open>\<open>Transaction.countDocuments(query)\<close>.\<close>

definition countDocuments :: "(string \<Rightarrow> string \<Rightarrow> bool) \<Rightarrow> transaction list \<Rightarrow> query \<Rightarrow> nat" where
  "countDocuments rx txns q = length (filter (matches rx q) txns)"

subsection \<open>The listing endpoint\<close>

text \<open>
  \<open>req.query\<close> of \<open>GET /api/transactions\<close>. The amounts and the tag list are the raw
  strings of the request; \<open>page\<close> and \<open>limit\<close> are the integers their strings denote, a
  category is its id and a date its time stamp (a present id or date is truthy).
\<close>

record list_request =
  r_page :: "int option"
  r_limit :: "int option"
  r_type :: "string option"
  r_category :: "nat option"
  r_startDate :: "int option"
  r_endDate :: "int option"
  r_minAmount :: "string option"
  r_maxAmount :: "string option"
  r_paymentMethod :: "string option"
  r_tags :: "string option"
  r_search :: "string option"
  r_sortBy :: "sort_field option"
  r_sortOrder :: "string option"

text \<open>The middleware \<open>validateQueryFilters\<close> in front of the handler (every rule is optional).\<close>

definition validateQueryFilters :: "list_request \<Rightarrow> bool" where
  "validateQueryFilters req =
     ((case r_page req of None \<Rightarrow> True | Some p \<Rightarrow> 1 \<le> p)
      \<and> (case r_limit req of None \<Rightarrow> True | Some l \<Rightarrow> 1 \<le> l \<and> l \<le> 100)
      \<and> (case r_type req of None \<Rightarrow> True | Some ty \<Rightarrow> ty \<in> {''income'', ''expense''})
      \<and> (case r_minAmount req of None \<Rightarrow> True | Some s \<Rightarrow> isFloat_min0 s)
      \<and> (case r_maxAmount req of None \<Rightarrow> True | Some s \<Rightarrow> isFloat_min0 s)
      \<and> (case r_sortOrder req of None \<Rightarrow> True | Some so \<Rightarrow> so \<in> {''asc'', ''desc''}))"

text \<open>The \<open>options\<close> object of the handler ("Build filter options").\<close>

definition listOptions :: "list_request \<Rightarrow> options" where
  "listOptions req =
     \<lparr> o_page = (case r_page req of None \<Rightarrow> 1 | Some p \<Rightarrow> p),
       o_limit = (case r_limit req of None \<Rightarrow> 10 | Some l \<Rightarrow> l),
       o_type = r_type req,
       o_category = r_category req,
       o_startDate = r_startDate req,
       o_endDate = r_endDate req,
       o_minAmount =
         (case r_minAmount req of
            None \<Rightarrow> None
          | Some s \<Rightarrow> if truthy_str (Some s) then Some (parseFloat s) else None),
       o_maxAmount =
         (case r_maxAmount req of
            None \<Rightarrow> None
          | Some s \<Rightarrow> if truthy_str (Some s) then Some (parseFloat s) else None),
       o_paymentMethod = r_paymentMethod req,
       o_tags =
         (case r_tags req of
            None \<Rightarrow> None
          | Some s \<Rightarrow> if truthy_str (Some s) then Some (split_comma s) else None),
       o_search = r_search req,
       o_sortBy = (case r_sortBy req of None \<Rightarrow> SortDate | Some f \<Rightarrow> f),
       o_sortOrder = (case r_sortOrder req of None \<Rightarrow> ''desc'' | Some so \<Rightarrow> so) \<rparr>"

text \<open>
  The second \<open>query\<close> object, built inline in the handler for the count ("Get total count for
  pagination"). Its tests are on the raw request strings.
\<close>

definition countQuery :: "nat \<Rightarrow> list_request \<Rightarrow> query" where
  "countQuery userId req =
     \<lparr> q_userId = userId,
       q_type = (if truthy_str (r_type req) then r_type req else None),
       q_category = r_category req,
       q_paymentMethod = (if truthy_str (r_paymentMethod req) then r_paymentMethod req else None),
       q_date =
         (if r_startDate req \<noteq> None \<or> r_endDate req \<noteq> None
          then Some \<lparr> d_gte = r_startDate req, d_lte = r_endDate req \<rparr>
          else None),
       q_amount =
         (if truthy_str (r_minAmount req) \<or> truthy_str (r_maxAmount req)
          then Some \<lparr> a_gte = (case r_minAmount req of
                                None \<Rightarrow> None
                              | Some s \<Rightarrow> if truthy_str (Some s) then Some (parseFloat s) else None),
                      a_lte = (case r_maxAmount req of
                                None \<Rightarrow> None
                              | Some s \<Rightarrow> if truthy_str (Some s) then Some (parseFloat s) else None) \<rparr>
          else None),
       q_tags =
         (case r_tags req of
            None \<Rightarrow> None
          | Some s \<Rightarrow> if truthy_str (Some s) then Some (split_comma s) else None),
       q_or = (if truthy_str (r_search req) then r_search req else None) \<rparr>"

record pagination =
  currentPage :: int
  totalPages :: jsnum
  totalTransactions :: nat
  hasNext :: bool
  hasPrev :: bool

record list_response =
  resp_transactions :: "transaction list"
  resp_pagination :: pagination

definition getTransactions ::
  "(string \<Rightarrow> string \<Rightarrow> bool) \<Rightarrow> store \<Rightarrow> nat \<Rightarrow> list_request \<Rightarrow> error + list_response" where
  "getTransactions rx st userId req =
     (let opts = listOptions req in
      case getUserTransactions rx (transactions st) userId opts of
        Inl e \<Rightarrow> Inl e
      | Inr txns \<Rightarrow>
          (let total = countDocuments rx (transactions st) (countQuery userId req);
               pages = math_ceil (js_div (of_nat total) (of_int (o_limit opts)))
           in Inr \<lparr> resp_transactions = txns,
                    resp_pagination =
                      \<lparr> currentPage = o_page opts,
                        totalPages = pages,
                        totalTransactions = total,
                        hasNext = js_lt (Fin (of_int (o_page opts))) pages,
                        hasPrev = (1 < o_page opts) \<rparr> \<rparr>))"

text \<open>The route: \<open>validateQueryFilters\<close> answers 400 itself, or passes on to the handler.\<close>

definition getTransactions_route ::
  "(string \<Rightarrow> string \<Rightarrow> bool) \<Rightarrow> store \<Rightarrow> nat \<Rightarrow> list_request \<Rightarrow> error + list_response" where
  "getTransactions_route rx st userId req =
     (if validateQueryFilters req then getTransactions rx st userId req else Inl ValidationFailed)"

section \<open>Aggregation engine (Transaction.getTransactionStats, getTransactionStats)\<close>

text \<open>The \<open>$match\<close> stage: the owner and the optional inclusive date bounds.\<close>

definition matchStage :: "nat \<Rightarrow> int option \<Rightarrow> int option \<Rightarrow> transaction \<Rightarrow> bool" where
  "matchStage userId startDate endDate t =
     (t_userId t = userId
      \<and> (case startDate of None \<Rightarrow> True | Some d \<Rightarrow> d \<le> t_date t)
      \<and> (case endDate of None \<Rightarrow> True | Some d \<Rightarrow> t_date t \<le> d))"

record type_stat =
  s_type :: txn_type
  s_totalAmount :: rat
  s_count :: nat
  s_avgAmount :: rat

record overall_stats =
  os_stats :: "type_stat list"
  os_totalTransactions :: nat

text \<open>
  The first \<open>$group\<close> stage, one row per type that occurs (in the order of first
  occurrence), with \<open>$sum\<close>, the count and \<open>$avg\<close> of the amounts of that type.
\<close>

definition group_by_type :: "transaction list \<Rightarrow> type_stat list" where
  "group_by_type ts =
     map (\<lambda>ty. let g = filter (\<lambda>t. t_type t = ty) ts
                in \<lparr> s_type = ty,
                     s_totalAmount = sum_list (map t_amount g),
                     s_count = length g,
                     s_avgAmount = sum_list (map t_amount g) / of_nat (length g) \<rparr>)
         (remdups (map t_type ts))"

text \<open>
  The static \<open>getTransactionStats\<close>: the second \<open>$group\<close> stage (with \<open>_id: null\<close>)
  collects the rows into one document, and yields no document when there is no row.
\<close>

definition Transaction_getTransactionStats ::
  "transaction list \<Rightarrow> nat \<Rightarrow> int option \<Rightarrow> int option \<Rightarrow> overall_stats list" where
  "Transaction_getTransactionStats txns userId startDate endDate =
     (let rows = group_by_type (filter (matchStage userId startDate endDate) txns)
      in if rows = [] then []
         else [\<lparr> os_stats = rows, os_totalTransactions = sum_list (map s_count rows) \<rparr>])"

text \<open>
  The \<open>stats\<close> object of the handler. The fields \<open>categoryBreakdown\<close> and
  \<open>monthlyTrends\<close> are copied from two further aggregations and take no part in the
  computation of the others; they are not part of this record.
\<close>

record stats_result =
  sr_totalTransactions :: nat
  sr_totalIncome :: rat
  sr_totalExpenses :: rat
  sr_netIncome :: rat
  sr_avgTransactionAmount :: rat

text \<open>\<open>x || 0\<close> on a number.\<close>

definition or0 :: "rat \<Rightarrow> rat" where
  "or0 x = (if x \<noteq> 0 then x else 0)"

text \<open>The body of \<open>statData.stats?.forEach(stat => ...)\<close>.\<close>

definition apply_stat :: "type_stat \<Rightarrow> stats_result \<Rightarrow> stats_result" where
  "apply_stat stat stats =
     (if txn_type_name (s_type stat) = ''income''
        then stats\<lparr> sr_totalIncome := or0 (s_totalAmount stat) \<rparr>
      else if txn_type_name (s_type stat) = ''expense''
        then stats\<lparr> sr_totalExpenses := or0 (s_totalAmount stat) \<rparr>
      else stats)"

definition getTransactionStats ::
  "store \<Rightarrow> nat \<Rightarrow> int option \<Rightarrow> int option \<Rightarrow> stats_result" where
  "getTransactionStats st userId startDate endDate =
     (let overallStats = Transaction_getTransactionStats (transactions st) userId startDate endDate;
          stats = \<lparr> sr_totalTransactions = 0, sr_totalIncome = 0, sr_totalExpenses = 0,
                    sr_netIncome = 0, sr_avgTransactionAmount = 0 \<rparr>
      in case overallStats of
           [] \<Rightarrow> stats
         | statData # _ \<Rightarrow>
             (let s1 = stats\<lparr> sr_totalTransactions :=
                               (if os_totalTransactions statData \<noteq> 0
                                then os_totalTransactions statData else 0) \<rparr>;
                  s2 = fold apply_stat (os_stats statData) s1;
                  s3 = s2\<lparr> sr_netIncome := sr_totalIncome s2 - sr_totalExpenses s2 \<rparr>
              in s3\<lparr> sr_avgTransactionAmount :=
                        (if 0 < sr_totalTransactions s3
                         then (sr_totalIncome s3 + sr_totalExpenses s3) / of_nat (sr_totalTransactions s3)
                         else 0) \<rparr>))"

section \<open>Report exporter (exportTransactionsPDF)\<close>

record export_request =
  e_startDate :: "int option"
  e_endDate :: "int option"
  e_type :: "string option"
  e_category :: "nat option"

text \<open>
  The document is the sequence of what the handler writes to the response, in order: the
  title block, the optional date-range caption, the summary block, the table header and one
  row per transaction. Coordinates, shading and page breaks of the rendering are not
  modelled. The result pairs what was written with the error thrown, if any.
\<close>

record pdf_row =
  row_date :: int
  row_title :: string
  row_category :: string
  row_type :: string
  row_amount :: rat

datatype pdf_item =
    TitleBlock
  | DateRangeCaption
  | SummaryBlock nat rat rat rat
  | TableHeader
  | TableRow pdf_row

text \<open>
  One table row. \<open>transaction.category\<close> is the populated category, \<open>null\<close> when the
  reference does not resolve, and reading \<open>.name\<close> of it then throws.
\<close>

definition export_row :: "category list \<Rightarrow> transaction \<Rightarrow> error + pdf_row" where
  "export_row cs t =
     (case findCategoryById cs (t_category t) of
        None \<Rightarrow> Inl (TypeError ''Cannot read properties of null'')
      | Some c \<Rightarrow>
          Inr \<lparr> row_date = t_date t,
                row_title = take 15 (t_title t),
                row_category = take 15 (c_name c),
                row_type = txn_type_name (t_type t),
                row_amount = t_amount t \<rparr>)"

text \<open>\<open>transactions.forEach\<close>: the rows written, and the error that stopped the loop.\<close>

fun export_rows :: "category list \<Rightarrow> transaction list \<Rightarrow> pdf_item list \<times> error option" where
  "export_rows cs [] = ([], None)"
| "export_rows cs (t # ts) =
     (case export_row cs t of
        Inl e \<Rightarrow> ([], Some e)
      | Inr r \<Rightarrow> (let rest = export_rows cs ts in (TableRow r # fst rest, snd rest)))"

definition exportOptions :: "export_request \<Rightarrow> options" where
  "exportOptions req =
     \<lparr> o_page = 1, o_limit = 1000,
       o_type = e_type req, o_category = e_category req,
       o_startDate = e_startDate req, o_endDate = e_endDate req,
       o_minAmount = None, o_maxAmount = None, o_paymentMethod = None,
       o_tags = None, o_search = None,
       o_sortBy = SortDate, o_sortOrder = ''desc'' \<rparr>"

definition exportTransactionsPDF ::
  "(string \<Rightarrow> string \<Rightarrow> bool) \<Rightarrow> store \<Rightarrow> nat \<Rightarrow> export_request \<Rightarrow> pdf_item list \<times> error option" where
  "exportTransactionsPDF rx st userId req =
     (case getUserTransactions rx (transactions st) userId (exportOptions req) of
        Inl e \<Rightarrow> ([], Some e)
      | Inr txns \<Rightarrow>
          if length txns = 0
          then ([], Some (AppError ''No transactions found for the specified criteria'' 404))
          else
            (let totalIncome = sum_list (map t_amount (filter (\<lambda>t. txn_type_name (t_type t) = ''income'') txns));
                 totalExpenses = sum_list (map t_amount (filter (\<lambda>t. txn_type_name (t_type t) = ''expense'') txns));
                 rows = export_rows (categories st) txns
             in ([TitleBlock]
                 @ (if e_startDate req \<noteq> None \<or> e_endDate req \<noteq> None then [DateRangeCaption] else [])
                 @ [SummaryBlock (length txns) totalIncome totalExpenses (totalIncome - totalExpenses),
                    TableHeader]
                 @ fst rows,
                 snd rows)))"

section \<open>Mutating operations\<close>

subsection \<open>Saving a category (Category model)\<close>

text \<open>
  \<open>categorySchema.pre('save')\<close>: a category with a parent is saved only when the parent
  exists, is itself top-level and is not owned by another user.
\<close>

definition category_preSave :: "category list \<Rightarrow> category \<Rightarrow> error option" where
  "category_preSave cs c =
     (case c_parentCategory c of
        None \<Rightarrow> None
      | Some p \<Rightarrow>
          (case findCategoryById cs p of
             None \<Rightarrow> Some (Error ''Parent category does not exist'')
           | Some parentCategory \<Rightarrow>
               if c_parentCategory parentCategory \<noteq> None
               then Some (Error ''Cannot create subcategory of a subcategory'')
               else if c_userId parentCategory \<noteq> None \<and> c_userId c \<noteq> None
                       \<and> c_userId parentCategory \<noteq> c_userId c
               then Some (Error ''Parent category must belong to the same user'')
               else None))"

text \<open>The schema validators of the fields modelled here (\<open>name\<close>: required, at most 50).\<close>

definition category_validate :: "category \<Rightarrow> error option" where
  "category_validate c =
     (if c_name c = [] then Some (ValidationError ''Category name is required'')
      else if 50 < length (c_name c) then Some (ValidationError ''Category name cannot exceed 50 characters'')
      else None)"

text \<open>Writing a document back: the first document with its id is replaced.\<close>

fun replace_category :: "category \<Rightarrow> category list \<Rightarrow> category list" where
  "replace_category c [] = []"
| "replace_category c (x # xs) =
     (if c_id x = c_id c then c # xs else x # replace_category c xs)"

text \<open>\<open>save()\<close> on a category that is already stored: validation, the hook, the write.\<close>

definition category_save :: "category list \<Rightarrow> category \<Rightarrow> error + category list" where
  "category_save cs c =
     (case category_validate c of
        Some e \<Rightarrow> Inl e
      | None \<Rightarrow>
          (case category_preSave cs c of
             Some e \<Rightarrow> Inl e
           | None \<Rightarrow> Inr (replace_category c cs)))"

text \<open>\<open>categorySchema.methods.incrementUsage\<close>.\<close>

definition incrementUsage :: "int \<Rightarrow> category list \<Rightarrow> category \<Rightarrow> error + category list" where
  "incrementUsage now cs c =
     category_save cs (c\<lparr> c_usageCount := c_usageCount c + 1, c_lastUsed := Some now \<rparr>)"

subsection \<open>Creating a transaction (Transaction model)\<close>

text \<open>
  The fields of a request body that become a transaction. Every field may be missing; a
  type and a payment method arrive as strings and are checked against the schema's enums.
\<close>

record txn_data =
  n_title :: "string option"
  n_description :: "string option"
  n_amount :: "rat option"
  n_type :: "string option"
  n_category :: "nat option"
  n_date :: "int option"
  n_paymentMethod :: "string option"
  n_tags :: "string list option"
  n_locationName :: "string option"

definition parse_txn_type :: "string \<Rightarrow> txn_type option" where
  "parse_txn_type s =
     (if s = ''income'' then Some TIncome else if s = ''expense'' then Some TExpense else None)"

definition paymentMethods :: "string list" where
  "paymentMethods =
     [''cash'', ''credit_card'', ''debit_card'', ''bank_transfer'', ''check'', ''digital_wallet'', ''other'']"

text \<open>
  The validators of \<open>transactionSchema\<close> on one field each; \<open>None\<close> when the value passes.
\<close>

definition check_title :: "string \<Rightarrow> error option" where
  "check_title s =
     (if s = [] then Some (ValidationError ''Transaction title is required'')
      else if 100 < length s then Some (ValidationError ''Title cannot exceed 100 characters'')
      else None)"

definition check_description :: "string option \<Rightarrow> error option" where
  "check_description d =
     (case d of
        None \<Rightarrow> None
      | Some s \<Rightarrow> if 500 < length s then Some (ValidationError ''Description cannot exceed 500 characters'')
                  else None)"

definition check_amount :: "rat \<Rightarrow> error option" where
  "check_amount a =
     (if a < 1 / 100 then Some (ValidationError ''Amount must be greater than 0'') else None)"

definition check_date :: "int \<Rightarrow> int \<Rightarrow> error option" where
  "check_date now d =
     (if d \<le> now then None else Some (ValidationError ''Transaction date cannot be in the future''))"

definition check_paymentMethod :: "string \<Rightarrow> error option" where
  "check_paymentMethod p =
     (if p \<in> set paymentMethods then None
      else Some (ValidationError ''is not a valid enum value for path paymentMethod''))"

definition check_tags :: "string list \<Rightarrow> error option" where
  "check_tags ts =
     (if list_all (\<lambda>t. length t \<le> 30) ts then None
      else Some (ValidationError ''Tag cannot exceed 30 characters''))"

definition check_locationName :: "string option \<Rightarrow> error option" where
  "check_locationName l =
     (case l of
        None \<Rightarrow> None
      | Some s \<Rightarrow> if 100 < length s then Some (ValidationError ''Location name cannot exceed 100 characters'')
                  else None)"

text \<open>The first error of a list of checks.\<close>

fun first_error :: "error option list \<Rightarrow> error option" where
  "first_error [] = None"
| "first_error (None # es) = first_error es"
| "first_error (Some e # es) = Some e"

text \<open>
  Validation of a new document: the required paths are present, every value passes its
  validators, and the defaults are filled in. The result is the document without its id.
\<close>

definition validate_new_transaction :: "int \<Rightarrow> nat \<Rightarrow> txn_data \<Rightarrow> error + transaction" where
  "validate_new_transaction now userId d =
     (case (n_title d, n_amount d, n_type d, n_category d, n_date d) of
        (Some title, Some amount, Some ty, Some cat, Some date) \<Rightarrow>
          (case parse_txn_type ty of
             None \<Rightarrow> Inl (ValidationError ''Transaction type must be either income or expense'')
           | Some ty' \<Rightarrow>
               (let pm = (case n_paymentMethod d of None \<Rightarrow> ''cash'' | Some p \<Rightarrow> p);
                    tags = (case n_tags d of None \<Rightarrow> [] | Some ts \<Rightarrow> ts)
                in case first_error
                          [check_title title, check_description (n_description d), check_amount amount,
                           check_date now date, check_paymentMethod pm, check_tags tags,
                           check_locationName (n_locationName d)] of
                     Some e \<Rightarrow> Inl e
                   | None \<Rightarrow>
                       Inr \<lparr> t_id = 0, t_title = title, t_description = n_description d,
                             t_amount = amount, t_type = ty', t_category = cat, t_date = date,
                             t_userId = userId, t_paymentMethod = pm, t_tags = tags,
                             t_locationName = n_locationName d \<rparr>))
      | _ \<Rightarrow> Inl (ValidationError ''Path is required''))"

text \<open>
  \<open>transactionSchema.pre('save')\<close> for a document whose \<open>category\<close> or \<open>type\<close> is
  modified (both are, on a new document): the category must exist and its type must be
  \<open>both\<close> or the transaction's; then its usage is incremented.
\<close>

definition transaction_preSave :: "int \<Rightarrow> category list \<Rightarrow> transaction \<Rightarrow> error + category list" where
  "transaction_preSave now cs t =
     (case findCategoryById cs (t_category t) of
        None \<Rightarrow> Inl (Error ''Category does not exist'')
      | Some category \<Rightarrow>
          if cat_type_name (c_type category) \<noteq> ''both''
             \<and> cat_type_name (c_type category) \<noteq> txn_type_name (t_type t)
          then Inl (Error ''Category cannot be used for transactions of this type'')
          else incrementUsage now cs category)"

text \<open>A new id: one more than every id in the collection.\<close>

definition fresh_id :: "nat list \<Rightarrow> nat" where
  "fresh_id ids = Suc (foldr max ids 0)"

text \<open>
  \<open>Transaction.create\<close>: validation, then the pre-save hook, then the insert. An error
  leaves the store as it was.
\<close>

definition Transaction_create :: "int \<Rightarrow> store \<Rightarrow> nat \<Rightarrow> txn_data \<Rightarrow> (error + transaction) \<times> store" where
  "Transaction_create now st userId d =
     (case validate_new_transaction now userId d of
        Inl e \<Rightarrow> (Inl e, st)
      | Inr t0 \<Rightarrow>
          (case transaction_preSave now (categories st) t0 of
             Inl e \<Rightarrow> (Inl e, st)
           | Inr cs' \<Rightarrow>
               (let t = t0\<lparr> t_id := fresh_id (map t_id (transactions st)) \<rparr>
                in (Inr t, \<lparr> categories = cs', transactions = transactions st @ [t] \<rparr>))))"

subsection \<open>Transaction controller\<close>

text \<open>
  The ownership test shared by the handlers:
  \<open>category.userId && !category.userId.equals(userId) && !category.isDefault\<close>.
\<close>

definition foreign_category :: "nat \<Rightarrow> category \<Rightarrow> bool" where
  "foreign_category userId c =
     (c_userId c \<noteq> None \<and> c_userId c \<noteq> Some userId \<and> \<not> c_isDefault c)"

definition createTransaction :: "int \<Rightarrow> store \<Rightarrow> nat \<Rightarrow> txn_data \<Rightarrow> (error + transaction) \<times> store" where
  "createTransaction now st userId body =
     (case (case n_category body of None \<Rightarrow> None | Some i \<Rightarrow> findCategoryById (categories st) i) of
        None \<Rightarrow> (Inl (AppError ''Category not found'' 404), st)
      | Some category \<Rightarrow>
          if foreign_category userId category
          then (Inl (AppError ''You can only use your own categories or default categories'' 403), st)
          else Transaction_create now st userId body)"

text \<open>\<open>createTransactionFromOCR\<close> (ocrController.js); \<open>None\<close> is a missing \<open>transactionData\<close>.\<close>

definition createTransactionFromOCR ::
  "int \<Rightarrow> store \<Rightarrow> nat \<Rightarrow> txn_data option \<Rightarrow> (error + transaction) \<times> store" where
  "createTransactionFromOCR now st userId transactionData =
     (case transactionData of
        None \<Rightarrow> (Inl (AppError ''Transaction title and amount are required'' 400), st)
      | Some d \<Rightarrow>
          if \<not> truthy_str (n_title d) \<or> n_amount d = None \<or> n_amount d = Some 0
          then (Inl (AppError ''Transaction title and amount are required'' 400), st)
          else Transaction_create now st userId d)"

text \<open>
  \<open>findByIdAndUpdate(id, req.body, {new: true, runValidators: true})\<close> on a transaction:
  the validators of the paths present in the body are run, and the first document with the
  id takes the new values. No \<open>save\<close> hook runs on this path.
\<close>

fun update_first :: "('a \<Rightarrow> bool) \<Rightarrow> ('a \<Rightarrow> 'a) \<Rightarrow> 'a list \<Rightarrow> 'a list" where
  "update_first P f [] = []"
| "update_first P f (x # xs) = (if P x then f x # xs else x # update_first P f xs)"

definition validate_txn_update :: "int \<Rightarrow> txn_data \<Rightarrow> error option" where
  "validate_txn_update now body =
     first_error
       [case n_title body of None \<Rightarrow> None | Some s \<Rightarrow> check_title s,
        check_description (n_description body),
        case n_amount body of None \<Rightarrow> None | Some a \<Rightarrow> check_amount a,
        case n_type body of
          None \<Rightarrow> None
        | Some ty \<Rightarrow> (case parse_txn_type ty of
                       None \<Rightarrow> Some (ValidationError ''Transaction type must be either income or expense'')
                     | Some _ \<Rightarrow> None),
        case n_date body of None \<Rightarrow> None | Some d \<Rightarrow> check_date now d,
        case n_paymentMethod body of None \<Rightarrow> None | Some p \<Rightarrow> check_paymentMethod p,
        case n_tags body of None \<Rightarrow> None | Some ts \<Rightarrow> check_tags ts,
        check_locationName (n_locationName body)]"

definition apply_txn_update :: "txn_data \<Rightarrow> transaction \<Rightarrow> transaction" where
  "apply_txn_update body t =
     t\<lparr> t_title := (case n_title body of None \<Rightarrow> t_title t | Some s \<Rightarrow> s),
        t_description := (case n_description body of None \<Rightarrow> t_description t | Some s \<Rightarrow> Some s),
        t_amount := (case n_amount body of None \<Rightarrow> t_amount t | Some a \<Rightarrow> a),
        t_type := (case n_type body of
                     None \<Rightarrow> t_type t
                   | Some ty \<Rightarrow> (case parse_txn_type ty of None \<Rightarrow> t_type t | Some ty' \<Rightarrow> ty')),
        t_category := (case n_category body of None \<Rightarrow> t_category t | Some c \<Rightarrow> c),
        t_date := (case n_date body of None \<Rightarrow> t_date t | Some d \<Rightarrow> d),
        t_paymentMethod := (case n_paymentMethod body of None \<Rightarrow> t_paymentMethod t | Some p \<Rightarrow> p),
        t_tags := (case n_tags body of None \<Rightarrow> t_tags t | Some ts \<Rightarrow> ts),
        t_locationName := (case n_locationName body of None \<Rightarrow> t_locationName t | Some l \<Rightarrow> Some l) \<rparr>"

definition updateTransaction ::
  "int \<Rightarrow> store \<Rightarrow> nat \<Rightarrow> nat \<Rightarrow> txn_data \<Rightarrow> (error + transaction option) \<times> store" where
  "updateTransaction now st userId i body =
     (case find (\<lambda>t. t_id t = i \<and> t_userId t = userId) (transactions st) of
        None \<Rightarrow> (Inl (AppError ''Transaction not found'' 404), st)
      | Some existingTransaction \<Rightarrow>
          (case (case n_category body of
                   None \<Rightarrow> None
                 | Some c \<Rightarrow>
                     (case findCategoryById (categories st) c of
                        None \<Rightarrow> Some (AppError ''Category not found'' 404)
                      | Some category \<Rightarrow>
                          if foreign_category userId category
                          then Some (AppError ''You can only use your own categories or default categories'' 403)
                          else None)) of
             Some e \<Rightarrow> (Inl e, st)
           | None \<Rightarrow>
               (case validate_txn_update now body of
                  Some e \<Rightarrow> (Inl e, st)
                | None \<Rightarrow>
                    (let txns' = update_first (\<lambda>t. t_id t = i) (apply_txn_update body) (transactions st)
                     in (Inr (find (\<lambda>t. t_id t = i) txns'), st\<lparr> transactions := txns' \<rparr>)))))"

text \<open>\<open>findOneAndDelete\<close> and \<open>findByIdAndDelete\<close>: the first match is removed.\<close>

fun delete_first :: "('a \<Rightarrow> bool) \<Rightarrow> 'a list \<Rightarrow> 'a list" where
  "delete_first P [] = []"
| "delete_first P (x # xs) = (if P x then xs else x # delete_first P xs)"

definition deleteTransaction :: "store \<Rightarrow> nat \<Rightarrow> nat \<Rightarrow> (error + unit) \<times> store" where
  "deleteTransaction st userId i =
     (case find (\<lambda>t. t_id t = i \<and> t_userId t = userId) (transactions st) of
        None \<Rightarrow> (Inl (AppError ''Transaction not found'' 404), st)
      | Some transaction \<Rightarrow>
          (Inr (), st\<lparr> transactions := delete_first (\<lambda>t. t_id t = i \<and> t_userId t = userId) (transactions st) \<rparr>))"

subsection \<open>Category controller\<close>

record cat_data =
  b_name :: "string option"
  b_type :: "string option"
  b_parentCategory :: "nat option"

definition parse_cat_type :: "string \<Rightarrow> cat_type option" where
  "parse_cat_type s =
     (if s = ''income'' then Some CIncome
      else if s = ''expense'' then Some CExpense
      else if s = ''both'' then Some CBoth
      else None)"

definition validate_cat_update :: "cat_data \<Rightarrow> error option" where
  "validate_cat_update body =
     first_error
       [case b_name body of
          None \<Rightarrow> None
        | Some s \<Rightarrow> if s = [] then Some (ValidationError ''Category name is required'')
                    else if 50 < length s then Some (ValidationError ''Category name cannot exceed 50 characters'')
                    else None,
        case b_type body of
          None \<Rightarrow> None
        | Some ty \<Rightarrow> (case parse_cat_type ty of
                       None \<Rightarrow> Some (ValidationError ''Category type must be either income, expense, or both'')
                     | Some _ \<Rightarrow> None)]"

definition apply_cat_update :: "cat_data \<Rightarrow> category \<Rightarrow> category" where
  "apply_cat_update body c =
     c\<lparr> c_name := (case b_name body of None \<Rightarrow> c_name c | Some s \<Rightarrow> s),
        c_type := (case b_type body of
                     None \<Rightarrow> c_type c
                   | Some ty \<Rightarrow> (case parse_cat_type ty of None \<Rightarrow> c_type c | Some ty' \<Rightarrow> ty')),
        c_parentCategory := (case b_parentCategory body of None \<Rightarrow> c_parentCategory c | Some p \<Rightarrow> Some p) \<rparr>"

text \<open>The checks of \<open>updateCategory\<close> on \<open>req.body.parentCategory\<close>.\<close>

definition check_parent :: "category list \<Rightarrow> nat \<Rightarrow> nat \<Rightarrow> nat option \<Rightarrow> error option" where
  "check_parent cs userId i parent =
     (case parent of
        None \<Rightarrow> None
      | Some p \<Rightarrow>
          (case findCategoryById cs p of
             None \<Rightarrow> Some (AppError ''Parent category not found'' 404)
           | Some parentCategory \<Rightarrow>
               if foreign_category userId parentCategory
               then Some (AppError ''You can only use your own categories or default categories as parent'' 403)
               else if c_id parentCategory = i
               then Some (AppError ''A category cannot be its own parent'' 400)
               else None))"

text \<open>The check of \<open>updateCategory\<close> for a name that another visible category already has.\<close>

definition check_name_conflict :: "category list \<Rightarrow> nat \<Rightarrow> nat \<Rightarrow> category \<Rightarrow> string option \<Rightarrow> error option" where
  "check_name_conflict cs userId i category newName =
     (case newName of
        None \<Rightarrow> None
      | Some n \<Rightarrow>
          if truthy_str (Some n) \<and> n \<noteq> c_name category
          then (case find (\<lambda>c. c_name c = n \<and> c_id c \<noteq> i \<and> (c_userId c = Some userId \<or> c_isDefault c)) cs of
                  Some existingCategory \<Rightarrow> Some (AppError ''A category with this name already exists'' 400)
                | None \<Rightarrow> None)
          else None)"

definition updateCategory ::
  "store \<Rightarrow> nat \<Rightarrow> nat \<Rightarrow> cat_data \<Rightarrow> (error + category option) \<times> store" where
  "updateCategory st userId i body =
     (case findCategoryById (categories st) i of
        None \<Rightarrow> (Inl (AppError ''Category not found'' 404), st)
      | Some category \<Rightarrow>
          if c_userId category = None \<or> c_userId category \<noteq> Some userId
          then (Inl (AppError ''You can only update your own categories'' 403), st)
          else
            (case first_error
                    [check_parent (categories st) userId i (b_parentCategory body),
                     check_name_conflict (categories st) userId i category (b_name body),
                     validate_cat_update body] of
               Some e \<Rightarrow> (Inl e, st)
             | None \<Rightarrow>
                 (let cs' = update_first (\<lambda>c. c_id c = i) (apply_cat_update body) (categories st)
                  in (Inr (findCategoryById cs' i), st\<lparr> categories := cs' \<rparr>))))"

definition deleteCategory :: "store \<Rightarrow> nat \<Rightarrow> nat \<Rightarrow> (error + unit) \<times> store" where
  "deleteCategory st userId i =
     (case findCategoryById (categories st) i of
        None \<Rightarrow> (Inl (AppError ''Category not found'' 404), st)
      | Some category \<Rightarrow>
          if c_userId category = None \<or> c_userId category \<noteq> Some userId \<or> c_isDefault category
          then (Inl (AppError ''You can only delete your own custom categories'' 403), st)
          else if 0 < length (filter (\<lambda>t. t_category t = i) (transactions st))
          then (Inl (AppError ''Cannot delete category. It is being used in transaction(s)'' 400), st)
          else if 0 < length (filter (\<lambda>c. c_parentCategory c = Some i) (categories st))
          then (Inl (AppError ''Cannot delete category. It has subcategory(ies)'' 400), st)
          else (Inr (), st\<lparr> categories := delete_first (\<lambda>c. c_id c = i) (categories st) \<rparr>))"

text \<open>
  \<open>bulkDeleteCategories\<close>; \<open>None\<close> is a missing \<open>categoryIds\<close> or one that is not an array.
  The result is \<open>deletedCount\<close>.
\<close>

definition bulk_deletable :: "nat \<Rightarrow> nat list \<Rightarrow> category \<Rightarrow> bool" where
  "bulk_deletable userId ids c =
     (c_id c \<in> set ids \<and> c_userId c = Some userId \<and> c_isDefault c = False)"

definition bulkDeleteCategories :: "store \<Rightarrow> nat \<Rightarrow> nat list option \<Rightarrow> (error + nat) \<times> store" where
  "bulkDeleteCategories st userId categoryIds =
     (case categoryIds of
        None \<Rightarrow> (Inl (AppError ''Category IDs are required'' 400), st)
      | Some ids \<Rightarrow>
          if length ids = 0 then (Inl (AppError ''Category IDs are required'' 400), st)
          else if length (filter (bulk_deletable userId ids) (categories st)) \<noteq> length ids
          then (Inl (AppError ''Some categories not found or cannot be deleted'' 400), st)
          else if 0 < length (filter (\<lambda>t. t_category t \<in> set ids) (transactions st))
          then (Inl (AppError ''Cannot delete categories that are being used in transactions'' 400), st)
          else (Inr (length (filter (bulk_deletable userId ids) (categories st))),
                st\<lparr> categories := filter (\<lambda>c. \<not> bulk_deletable userId ids c) (categories st) \<rparr>))"

section \<open>Properties of the store\<close>

text \<open>
  Type compatibility: the category a transaction refers to, when it exists, has type
  \<open>both\<close> or the type of the transaction.
\<close>

definition compatible :: "category \<Rightarrow> transaction \<Rightarrow> bool" where
  "compatible c t = (c_type c = CBoth \<or> cat_type_name (c_type c) = txn_type_name (t_type t))"

definition type_compatible :: "store \<Rightarrow> bool" where
  "type_compatible st =
     list_all (\<lambda>t. case findCategoryById (categories st) (t_category t) of
                     None \<Rightarrow> True
                   | Some c \<Rightarrow> compatible c t)
              (transactions st)"

text \<open>The usage count of the category with an id, when there is one.\<close>

definition usageCount_of :: "store \<Rightarrow> nat \<Rightarrow> nat option" where
  "usageCount_of st i = map_option c_usageCount (findCategoryById (categories st) i)"

text \<open>The default categories of a store.\<close>

definition default_categories :: "store \<Rightarrow> category list" where
  "default_categories st = filter c_isDefault (categories st)"

section \<open>Predicates and example data for the statements\<close>

text \<open>Whether some keyword of a table entry occurs in the (lower-cased) merchant.\<close>

definition entry_hit :: "string \<Rightarrow> string \<times> string list \<Rightarrow> bool" where
  "entry_hit merchant e = list_ex (str_includes merchant) (snd e)"

definition keyword_hit :: "string \<Rightarrow> bool" where
  "keyword_hit merchant = list_ex (entry_hit merchant) categoryPatterns"

text \<open>The first table entry, in table order, with a keyword occurring in the merchant.\<close>

definition first_keyword_match :: "string \<Rightarrow> string option" where
  "first_keyword_match merchant = map_option fst (find (entry_hit merchant) categoryPatterns)"

text \<open>A default category as \<open>createDefaultCategories\<close> inserts it.\<close>

definition default_category :: "nat \<Rightarrow> string \<Rightarrow> cat_type \<Rightarrow> category" where
  "default_category i n ty =
     \<lparr> c_id = i, c_name = n, c_type = ty, c_userId = None, c_isActive = True,
       c_isDefault = True, c_usageCount = 0, c_lastUsed = None, c_parentCategory = None \<rparr>"

definition example_directory :: "category list" where
  "example_directory =
     [default_category 1 ''Shopping'' CExpense, default_category 2 ''Other Expense'' CExpense]"

text \<open>
  A store with two more categories and three transactions of user 7, and a stand-in for the
  regular-expression engine that reads a pattern as plain text.
\<close>

definition user_category :: "nat \<Rightarrow> string \<Rightarrow> cat_type \<Rightarrow> nat \<Rightarrow> category" where
  "user_category i n ty u =
     \<lparr> c_id = i, c_name = n, c_type = ty, c_userId = Some u, c_isActive = True,
       c_isDefault = False, c_usageCount = 0, c_lastUsed = None, c_parentCategory = None \<rparr>"

definition example_txn :: "nat \<Rightarrow> rat \<Rightarrow> txn_type \<Rightarrow> nat \<Rightarrow> int \<Rightarrow> transaction" where
  "example_txn i a ty c d =
     \<lparr> t_id = i, t_title = ''Lunch'', t_description = None, t_amount = a, t_type = ty,
       t_category = c, t_date = d, t_userId = 7, t_paymentMethod = ''cash'', t_tags = [],
       t_locationName = None \<rparr>"

definition example_store :: store where
  "example_store =
     \<lparr> categories = example_directory
         @ [user_category 3 ''Groceries'' CExpense 7, default_category 4 ''Salary'' CIncome],
       transactions =
         [example_txn 1 5 TExpense 3 100, example_txn 2 20 TIncome 4 200, example_txn 3 7 TExpense 1 300] \<rparr>"

definition plain_rx :: "string \<Rightarrow> string \<Rightarrow> bool" where
  "plain_rx pattern text = str_includes (toLowerCase text) (toLowerCase pattern)"

definition empty_request :: list_request where
  "empty_request =
     \<lparr> r_page = None, r_limit = None, r_type = None, r_category = None, r_startDate = None,
       r_endDate = None, r_minAmount = None, r_maxAmount = None, r_paymentMethod = None,
       r_tags = None, r_search = None, r_sortBy = None, r_sortOrder = None \<rparr>"

definition empty_export_request :: export_request where
  "empty_export_request =
     \<lparr> e_startDate = None, e_endDate = None, e_type = None, e_category = None \<rparr>"

text \<open>
  The store before any transaction, a request body for an expense in category 3, and an
  update that turns category 3 into an income category.
\<close>

definition seeded_store :: store where
  "seeded_store = \<lparr> categories = categories example_store, transactions = [] \<rparr>"

definition groceries_expense :: txn_data where
  "groceries_expense =
     \<lparr> n_title = Some ''Lunch'', n_description = None, n_amount = Some 5,
       n_type = Some ''expense'', n_category = Some 3, n_date = Some 100,
       n_paymentMethod = None, n_tags = None, n_locationName = None \<rparr>"

definition groceries_to_income :: cat_data where
  "groceries_to_income =
     \<lparr> b_name = Some ''Groceries'', b_type = Some ''income'', b_parentCategory = None \<rparr>"

section \<open>Verified properties\<close>

subsection \<open>Category suggestion\<close>

text \<open>The inner and the outer iteration in closed form.\<close>

lemma matchPatterns_eq:
  "matchPatterns cs uid m n ps =
     (if list_ex (str_includes m) ps then findUserCategoryByName cs uid n else None)"
  by (induction ps) (auto split: option.splits)

lemma matchEntries_eq:
  "matchEntries cs uid m es =
     (case find (\<lambda>e. entry_hit m e \<and> findUserCategoryByName cs uid (fst e) \<noteq> None) es of
        Some e \<Rightarrow> findUserCategoryByName cs uid (fst e)
      | None \<Rightarrow> None)"
  by (induction es) (auto simp: matchPatterns_eq entry_hit_def split: option.splits)

lemma matchEntries_no_hit:
  "\<not> list_ex (entry_hit m) es \<Longrightarrow> matchEntries cs uid m es = None"
  by (induction es) (auto simp: matchPatterns_eq entry_hit_def split: option.splits)

lemma find_Some_holds: "find P xs = Some x \<Longrightarrow> P x \<and> x \<in> set xs"
  by (induction xs) (auto split: if_splits)

text \<open>
  Claim C3, as the code has it: with an active default category named "Other Expense" in the
  directory, a non-empty merchant name whose lower-cased form contains no keyword of the
  table yields that category; an absent or empty merchant name yields \<open>null\<close>. The
  operation has no failing branch.
\<close>

theorem suggest_unmatched_merchant:
  assumes "findOtherExpense cs = Some other"
  shows "c_name other = ''Other Expense'' \<and> c_isDefault other \<and> c_isActive other
         \<and> suggestCategoryFromMerchant cs uid None = None
         \<and> suggestCategoryFromMerchant cs uid (Some []) = None
         \<and> (m \<noteq> [] \<and> \<not> keyword_hit (toLowerCase m)
              \<longrightarrow> suggestCategoryFromMerchant cs uid (Some m) = Some other)"
proof -
  from assms have "c_name other = ''Other Expense'' \<and> c_isDefault other \<and> c_isActive other"
    unfolding findOtherExpense_def by (auto dest: find_Some_holds)
  moreover have "suggestCategoryFromMerchant cs uid None = None"
    by (simp add: suggestCategoryFromMerchant_def)
  moreover have "suggestCategoryFromMerchant cs uid (Some []) = None"
    by (simp add: suggestCategoryFromMerchant_def)
  moreover have "suggestCategoryFromMerchant cs uid (Some m) = Some other"
    if "m \<noteq> []" and "\<not> keyword_hit (toLowerCase m)"
    using that assms
    by (simp add: suggestCategoryFromMerchant_def keyword_hit_def matchEntries_no_hit)
  ultimately show ?thesis by blast
qed

theorem suggest_unmatched_merchant_witness:
  "findOtherExpense example_directory = Some (default_category 2 ''Other Expense'' CExpense)
   \<and> ''Swiggy Bangalore'' \<noteq> [] \<and> \<not> keyword_hit (toLowerCase ''Swiggy Bangalore'')
   \<and> suggestCategoryFromMerchant example_directory 7 (Some ''Swiggy Bangalore'')
       = Some (default_category 2 ''Other Expense'' CExpense)"
proof -
  have h: "findOtherExpense example_directory = Some (default_category 2 ''Other Expense'' CExpense)"
    by code_simp
  have k: "\<not> keyword_hit (toLowerCase ''Swiggy Bangalore'')"
    by code_simp
  from suggest_unmatched_merchant [OF h, of 7 "''Swiggy Bangalore''"] h k show ?thesis
    by simp
qed

text \<open>
  Claim C3 as stated fails for an absent merchant name: the guard at the head of the function
  (and the one in \<open>processReceipt\<close>) returns \<open>null\<close> although "Other Expense" exists.
\<close>

theorem suggest_absent_merchant_counterexample:
  "findOtherExpense example_directory = Some (default_category 2 ''Other Expense'' CExpense)
   \<and> suggestCategoryFromMerchant example_directory 7 None = None
   \<and> processReceipt_suggestedCategory example_directory 7 None = None"
  by code_simp

text \<open>
  Claim C4, as the code has it: for a non-empty merchant name the result is the directory
  category of the first table entry that has a keyword in the lower-cased merchant and
  whose name resolves to an active category (default or of the user); entries that do not
  resolve are skipped, and when none is left the result is the "Other Expense" lookup.
\<close>

theorem suggest_first_resolvable_entry:
  assumes "m \<noteq> []"
  shows "suggestCategoryFromMerchant cs uid (Some m) =
     (case find (\<lambda>e. entry_hit (toLowerCase m) e \<and> findUserCategoryByName cs uid (fst e) \<noteq> None)
                categoryPatterns of
        Some e \<Rightarrow> findUserCategoryByName cs uid (fst e)
      | None \<Rightarrow> findOtherExpense cs)"
proof (cases "find (\<lambda>e. entry_hit (toLowerCase m) e \<and> findUserCategoryByName cs uid (fst e) \<noteq> None)
                categoryPatterns")
  case None
  with assms show ?thesis
    by (simp add: suggestCategoryFromMerchant_def matchEntries_eq)
next
  case (Some e)
  then have "findUserCategoryByName cs uid (fst e) \<noteq> None"
    by (auto dest: find_Some_holds)
  with Some assms show ?thesis
    by (auto simp: suggestCategoryFromMerchant_def matchEntries_eq)
qed

theorem suggest_first_resolvable_entry_witness:
  "''Pizza Store'' \<noteq> []
   \<and> suggestCategoryFromMerchant example_directory 7 (Some ''Pizza Store'')
       = Some (default_category 1 ''Shopping'' CExpense)
   \<and> find (\<lambda>e. entry_hit (toLowerCase ''Pizza Store'') e
                \<and> findUserCategoryByName example_directory 7 (fst e) \<noteq> None) categoryPatterns
       = Some (''Shopping'', [''store'', ''shop'', ''mall'', ''walmart'', ''target'', ''amazon'', ''ebay'',
        ''retail'', ''boutique''])"
proof -
  have n: "''Pizza Store'' \<noteq> []" by simp
  have f: "find (\<lambda>e. entry_hit (toLowerCase ''Pizza Store'') e
                \<and> findUserCategoryByName example_directory 7 (fst e) \<noteq> None) categoryPatterns
       = Some (''Shopping'', [''store'', ''shop'', ''mall'', ''walmart'', ''target'', ''amazon'', ''ebay'',
        ''retail'', ''boutique''])"
    by code_simp
  have g: "findUserCategoryByName example_directory 7 ''Shopping'' = Some (default_category 1 ''Shopping'' CExpense)"
    by code_simp
  from suggest_first_resolvable_entry [OF n, of example_directory 7] f g show ?thesis
    by simp
qed

text \<open>
  Claim C4 as stated fails: the first keyword match of "Pizza Store" names "Food & Dining",
  which the directory does not have, and the result is the "Shopping" category, not \<open>null\<close>.
\<close>

theorem suggest_missing_category_counterexample:
  "first_keyword_match (toLowerCase ''Pizza Store'') = Some ''Food & Dining''
   \<and> findUserCategoryByName example_directory 7 ''Food & Dining'' = None
   \<and> suggestCategoryFromMerchant example_directory 7 (Some ''Pizza Store'')
       = Some (default_category 1 ''Shopping'' CExpense)"
  by code_simp

subsection \<open>Sorting and paging\<close>

lemma sort_docs_Cons: "sort_docs le (x # xs) = insert_doc le x (sort_docs le xs)"
  by (simp add: sort_docs_def)

lemma sort_docs_Nil: "sort_docs le [] = []"
  by (simp add: sort_docs_def)

lemma set_insert_doc: "set (insert_doc le x xs) = insert x (set xs)"
  by (induction xs) auto

lemma set_sort_docs: "set (sort_docs le xs) = set xs"
  by (induction xs) (simp_all add: sort_docs_Nil sort_docs_Cons set_insert_doc)

lemma length_insert_doc: "length (insert_doc le x xs) = Suc (length xs)"
  by (induction xs) auto

lemma length_sort_docs: "length (sort_docs le xs) = length xs"
  by (induction xs) (simp_all add: sort_docs_Nil sort_docs_Cons length_insert_doc)

lemma distinct_insert_doc: "distinct (insert_doc le x xs) = (x \<notin> set xs \<and> distinct xs)"
  by (induction xs) (auto simp: set_insert_doc)

lemma distinct_sort_docs: "distinct (sort_docs le xs) = distinct xs"
  by (induction xs) (simp_all add: sort_docs_Nil sort_docs_Cons distinct_insert_doc set_sort_docs)

lemma take_drop_disjoint:
  assumes "distinct xs"
  shows "set (take n xs) \<inter> set (take m (drop n xs)) = {}"
proof -
  have "set (take m (drop n xs)) \<subseteq> set (drop n xs)"
    by (rule set_take_subset)
  moreover have "set (take n xs) \<inter> set (drop n xs) = {}"
    using assms by (simp add: set_take_disj_set_drop_if_distinct)
  ultimately show ?thesis by blast
qed

text \<open>The listing for a page and a limit inside the validated range.\<close>

lemma getUserTransactions_page:
  assumes "1 \<le> o_page opts" and "1 \<le> o_limit opts"
  shows "getUserTransactions rx txns uid opts =
     Inr (take (nat (o_limit opts))
            (drop (nat ((o_page opts - 1) * o_limit opts))
               (sort_docs (sort_le (o_sortBy opts) (o_sortOrder opts))
                  (filter (matches rx (userTransactionsQuery uid opts)) txns))))"
proof -
  have "\<not> (o_page opts - 1) * o_limit opts < 0"
    using assms by (simp add: mult_less_0_iff)
  then show ?thesis
    using assms by (simp add: getUserTransactions_def cursor_limit_def Let_def)
qed

lemma listOptions_page:
  "listOptions (req\<lparr> r_page := Some p \<rparr>) = (listOptions req)\<lparr> o_page := p \<rparr>"
  by (simp add: listOptions_def)

lemma userTransactionsQuery_page:
  "userTransactionsQuery uid (opts\<lparr> o_page := p \<rparr>) = userTransactionsQuery uid opts"
  by (simp add: userTransactionsQuery_def)

lemma valid_limit:
  assumes "validateQueryFilters req"
  shows "1 \<le> o_limit (listOptions req) \<and> o_limit (listOptions req) \<le> 100"
  using assms by (auto simp: validateQueryFilters_def listOptions_def split: option.splits)

lemma valid_page:
  assumes "validateQueryFilters req"
  shows "1 \<le> o_page (listOptions req)"
  using assms by (auto simp: validateQueryFilters_def listOptions_def split: option.splits)

lemma valid_page_update:
  assumes "validateQueryFilters req" and "1 \<le> p"
  shows "validateQueryFilters (req\<lparr> r_page := Some p \<rparr>)"
  using assms by (simp add: validateQueryFilters_def)

lemma route_valid:
  assumes "validateQueryFilters req"
  shows "getTransactions_route rx st uid req =
     Inr \<lparr> resp_transactions =
             take (nat (o_limit (listOptions req)))
               (drop (nat ((o_page (listOptions req) - 1) * o_limit (listOptions req)))
                  (sort_docs (sort_le (o_sortBy (listOptions req)) (o_sortOrder (listOptions req)))
                     (filter (matches rx (userTransactionsQuery uid (listOptions req))) (transactions st)))),
           resp_pagination =
             \<lparr> currentPage = o_page (listOptions req),
               totalPages = Fin (of_int \<lceil>rat_of_nat (countDocuments rx (transactions st) (countQuery uid req))
                                          / rat_of_int (o_limit (listOptions req))\<rceil>),
               totalTransactions = countDocuments rx (transactions st) (countQuery uid req),
               hasNext = (o_page (listOptions req)
                            < \<lceil>rat_of_nat (countDocuments rx (transactions st) (countQuery uid req))
                                 / rat_of_int (o_limit (listOptions req))\<rceil>),
               hasPrev = (1 < o_page (listOptions req)) \<rparr> \<rparr>"
proof -
  have l: "1 \<le> o_limit (listOptions req)" using valid_limit [OF assms] by simp
  have p: "1 \<le> o_page (listOptions req)" using valid_page [OF assms] by simp
  have z: "rat_of_int (o_limit (listOptions req)) \<noteq> 0" using l by simp
  show ?thesis
    using assms z
    by (simp add: getTransactions_route_def getTransactions_def getUserTransactions_page [OF p l]
        js_div_def Let_def)
qed

lemma route_Inr_valid:
  assumes "getTransactions_route rx st uid req = Inr r"
  shows "validateQueryFilters req"
  using assms by (auto simp: getTransactions_route_def split: if_splits)

text \<open>
  Claim C5, over a store whose transactions have distinct ids. A request that passes
  \<open>validateQueryFilters\<close> (so its limit is between 1 and 100) is answered, for its own
  page and for pages 1 and 2. Whenever the listing answers for page 1 and for page 2 of the
  same filter and limit, the two pages share no transaction. In every answer
  \<open>totalPages\<close> is the ceiling of \<open>totalTransactions / limit\<close>, \<open>hasNext\<close> says that
  the current page is below it, and \<open>hasPrev\<close> says that the current page is above 1.
\<close>

theorem pagination_pages_and_flags:
  assumes "distinct (map t_id (transactions st))"
  shows "(validateQueryFilters req
            \<longrightarrow> (\<exists>p1 p2 r. getTransactions_route rx st uid (req\<lparr> r_page := Some 1 \<rparr>) = Inr p1
                  \<and> getTransactions_route rx st uid (req\<lparr> r_page := Some 2 \<rparr>) = Inr p2
                  \<and> getTransactions_route rx st uid req = Inr r))
         \<and> (getTransactions_route rx st uid (req\<lparr> r_page := Some 1 \<rparr>) = Inr page1
              \<and> getTransactions_route rx st uid (req\<lparr> r_page := Some 2 \<rparr>) = Inr page2
            \<longrightarrow> set (resp_transactions page1) \<inter> set (resp_transactions page2) = {})
         \<and> (getTransactions_route rx st uid req = Inr resp
            \<longrightarrow> totalPages (resp_pagination resp)
                  = Fin (of_int \<lceil>rat_of_nat (totalTransactions (resp_pagination resp))
                                   / rat_of_int (o_limit (listOptions req))\<rceil>)
                \<and> hasNext (resp_pagination resp)
                  = (currentPage (resp_pagination resp)
                       < \<lceil>rat_of_nat (totalTransactions (resp_pagination resp))
                            / rat_of_int (o_limit (listOptions req))\<rceil>)
                \<and> hasPrev (resp_pagination resp) = (1 < currentPage (resp_pagination resp)))"
proof (intro conjI impI)
  assume v: "validateQueryFilters req"
  have v1: "validateQueryFilters (req\<lparr> r_page := Some 1 \<rparr>)"
    using v by (rule valid_page_update) simp
  have v2: "validateQueryFilters (req\<lparr> r_page := Some 2 \<rparr>)"
    using v by (rule valid_page_update) simp
  show "\<exists>p1 p2 r. getTransactions_route rx st uid (req\<lparr> r_page := Some 1 \<rparr>) = Inr p1
                  \<and> getTransactions_route rx st uid (req\<lparr> r_page := Some 2 \<rparr>) = Inr p2
                  \<and> getTransactions_route rx st uid req = Inr r"
    by (simp add: route_valid [OF v1] route_valid [OF v2] route_valid [OF v])
next
  let ?L = "o_limit (listOptions req)"
  let ?xs = "sort_docs (sort_le (o_sortBy (listOptions req)) (o_sortOrder (listOptions req)))
               (filter (matches rx (userTransactionsQuery uid (listOptions req))) (transactions st))"
  assume a: "getTransactions_route rx st uid (req\<lparr> r_page := Some 1 \<rparr>) = Inr page1
              \<and> getTransactions_route rx st uid (req\<lparr> r_page := Some 2 \<rparr>) = Inr page2"
  then have v1: "validateQueryFilters (req\<lparr> r_page := Some 1 \<rparr>)"
    and v2: "validateQueryFilters (req\<lparr> r_page := Some 2 \<rparr>)"
    by (auto dest: route_Inr_valid)
  have d: "distinct ?xs"
    using assms by (simp add: distinct_sort_docs distinct_map)
  have disj: "set (take (nat ?L) ?xs) \<inter> set (take (nat ?L) (drop (nat ?L) ?xs)) = {}"
    using d by (rule take_drop_disjoint)
  from a have "resp_transactions page1 = take (nat ?L) ?xs"
    by (auto simp: route_valid [OF v1] listOptions_page userTransactionsQuery_page)
  moreover from a have "resp_transactions page2 = take (nat ?L) (drop (nat ?L) ?xs)"
    by (auto simp: route_valid [OF v2] listOptions_page userTransactionsQuery_page)
  ultimately show "set (resp_transactions page1) \<inter> set (resp_transactions page2) = {}"
    using disj by simp
next
  assume r: "getTransactions_route rx st uid req = Inr resp"
  then have v: "validateQueryFilters req" by (rule route_Inr_valid)
  from r show "totalPages (resp_pagination resp)
                  = Fin (of_int \<lceil>rat_of_nat (totalTransactions (resp_pagination resp))
                                   / rat_of_int (o_limit (listOptions req))\<rceil>)"
    by (auto simp: route_valid [OF v])
  from r show "hasNext (resp_pagination resp)
                  = (currentPage (resp_pagination resp)
                       < \<lceil>rat_of_nat (totalTransactions (resp_pagination resp))
                            / rat_of_int (o_limit (listOptions req))\<rceil>)"
    by (auto simp: route_valid [OF v])
  from r show "hasPrev (resp_pagination resp) = (1 < currentPage (resp_pagination resp))"
    by (auto simp: route_valid [OF v])
qed

theorem pagination_pages_and_flags_witness:
  "distinct (map t_id (transactions example_store))
   \<and> validateQueryFilters (empty_request\<lparr> r_limit := Some 2 \<rparr>)
   \<and> (\<exists>p1 p2 r.
           getTransactions_route plain_rx example_store 7
             (empty_request\<lparr> r_limit := Some 2, r_page := Some 1 \<rparr>) = Inr p1
         \<and> getTransactions_route plain_rx example_store 7
             (empty_request\<lparr> r_limit := Some 2, r_page := Some 2 \<rparr>) = Inr p2
         \<and> set (resp_transactions p1) \<inter> set (resp_transactions p2) = {}
         \<and> map t_id (resp_transactions p1) = [3, 2]
         \<and> map t_id (resp_transactions p2) = [1]
         \<and> getTransactions_route plain_rx example_store 7 (empty_request\<lparr> r_limit := Some 2 \<rparr>) = Inr r
         \<and> totalPages (resp_pagination r) = Fin 2
         \<and> hasNext (resp_pagination r)
         \<and> \<not> hasPrev (resp_pagination r))"
proof -
  have v: "validateQueryFilters (empty_request\<lparr> r_limit := Some 2 \<rparr>)"
    by code_simp
  have d: "distinct (map t_id (transactions example_store))"
    by code_simp
  note inst = pagination_pages_and_flags
    [OF d, where rx = plain_rx and uid = 7 and req = "empty_request\<lparr> r_limit := Some 2 \<rparr>"]
  from inst v obtain p1 p2 r where
    p1: "getTransactions_route plain_rx example_store 7
           (empty_request\<lparr> r_limit := Some 2, r_page := Some 1 \<rparr>) = Inr p1"
    and p2: "getTransactions_route plain_rx example_store 7
           (empty_request\<lparr> r_limit := Some 2, r_page := Some 2 \<rparr>) = Inr p2"
    and r: "getTransactions_route plain_rx example_store 7 (empty_request\<lparr> r_limit := Some 2 \<rparr>) = Inr r"
    by blast
  from inst [where ?page1.0 = p1 and ?page2.0 = p2] p1 p2
  have dj: "set (resp_transactions p1) \<inter> set (resp_transactions p2) = {}"
    by blast
  have e1: "map_sum id (map t_id \<circ> resp_transactions)
              (getTransactions_route plain_rx example_store 7
                 (empty_request\<lparr> r_limit := Some 2, r_page := Some 1 \<rparr>)) = Inr [3, 2]"
    by code_simp
  have e2: "map_sum id (map t_id \<circ> resp_transactions)
              (getTransactions_route plain_rx example_store 7
                 (empty_request\<lparr> r_limit := Some 2, r_page := Some 2 \<rparr>)) = Inr [1]"
    by code_simp
  have e3: "map_sum id (\<lambda>r. (totalPages (resp_pagination r), hasNext (resp_pagination r), hasPrev (resp_pagination r)))
              (getTransactions_route plain_rx example_store 7 (empty_request\<lparr> r_limit := Some 2 \<rparr>))
            = Inr (Fin 2, True, False)"
    by code_simp
  from e1 p1 have m1: "map t_id (resp_transactions p1) = [3, 2]" by simp
  from e2 p2 have m2: "map t_id (resp_transactions p2) = [1]" by simp
  from e3 r have m3: "totalPages (resp_pagination r) = Fin 2" by simp
  from e3 r have m4: "hasNext (resp_pagination r)" by simp
  from e3 r have m5: "\<not> hasPrev (resp_pagination r)" by simp
  show ?thesis
    by (intro conjI exI) (rule v d p1 p2 dj r m1 m2 m3 m4 m5)+
qed

subsection \<open>Statistics\<close>

lemma group_by_type_Nil: "group_by_type [] = []"
  by (simp add: group_by_type_def)

text \<open>
  Claim C6: for every store, owner and date range the statistics satisfy
  \<open>netIncome = totalIncome - totalExpenses\<close>, and when no transaction of the owner lies in
  the range all three are 0.
\<close>

theorem stats_net_income:
  "sr_netIncome (getTransactionStats st uid startDate endDate)
     = sr_totalIncome (getTransactionStats st uid startDate endDate)
       - sr_totalExpenses (getTransactionStats st uid startDate endDate)
   \<and> (filter (matchStage uid startDate endDate) (transactions st) = []
        \<longrightarrow> sr_totalIncome (getTransactionStats st uid startDate endDate) = 0
          \<and> sr_totalExpenses (getTransactionStats st uid startDate endDate) = 0
          \<and> sr_netIncome (getTransactionStats st uid startDate endDate) = 0)"
proof (intro conjI impI)
  show "sr_netIncome (getTransactionStats st uid startDate endDate)
     = sr_totalIncome (getTransactionStats st uid startDate endDate)
       - sr_totalExpenses (getTransactionStats st uid startDate endDate)"
    by (cases "Transaction_getTransactionStats (transactions st) uid startDate endDate")
       (simp_all add: getTransactionStats_def Let_def)
next
  assume e: "filter (matchStage uid startDate endDate) (transactions st) = []"
  then have n: "Transaction_getTransactionStats (transactions st) uid startDate endDate = []"
    by (simp add: Transaction_getTransactionStats_def group_by_type_Nil)
  show "sr_totalIncome (getTransactionStats st uid startDate endDate) = 0"
    by (simp add: getTransactionStats_def n)
  show "sr_totalExpenses (getTransactionStats st uid startDate endDate) = 0"
    by (simp add: getTransactionStats_def n)
  show "sr_netIncome (getTransactionStats st uid startDate endDate) = 0"
    by (simp add: getTransactionStats_def n)
qed

theorem stats_net_income_witness:
  "filter (matchStage 8 None None) (transactions example_store) = []
   \<and> sr_totalIncome (getTransactionStats example_store 8 None None) = 0
   \<and> sr_totalExpenses (getTransactionStats example_store 8 None None) = 0
   \<and> sr_netIncome (getTransactionStats example_store 8 None None) = 0
   \<and> sr_totalIncome (getTransactionStats example_store 7 None None) = 20
   \<and> sr_totalExpenses (getTransactionStats example_store 7 None None) = 12
   \<and> sr_netIncome (getTransactionStats example_store 7 None None) = 20 - 12"
proof -
  have e: "filter (matchStage 8 None None) (transactions example_store) = []"
    by code_simp
  have i: "sr_totalIncome (getTransactionStats example_store 7 None None) = 20"
    by code_simp
  have x: "sr_totalExpenses (getTransactionStats example_store 7 None None) = 12"
    by code_simp
  from stats_net_income [of example_store 8 None None] stats_net_income [of example_store 7 None None]
    e i x show ?thesis
    by simp
qed

subsection \<open>Export\<close>

lemma export_rows_has_row:
  assumes "snd (export_rows cs ts) = None" and "ts \<noteq> []"
  shows "\<exists>r. TableRow r \<in> set (fst (export_rows cs ts))"
proof (cases ts)
  case Nil
  with assms show ?thesis by simp
next
  case (Cons t ts')
  with assms show ?thesis
    by (cases "export_row cs t") (auto simp: Let_def)
qed

lemma exported_listing:
  "getUserTransactions rx txns uid (exportOptions req) =
     Inr (take 1000 (sort_docs (sort_le SortDate ''desc'')
                       (filter (matches rx (userTransactionsQuery uid (exportOptions req))) txns)))"
  by (simp add: getUserTransactions_def exportOptions_def cursor_limit_def Let_def)

text \<open>
  Claim C7: when no transaction satisfies the export filter, the export writes nothing and
  fails with the 404 "No transactions found" error; and an export that ends without an
  error has written at least one table row, so there is no headers-only document.
\<close>

theorem export_empty_fails:
  "(filter (matches rx (userTransactionsQuery uid (exportOptions req))) (transactions st) = []
      \<longrightarrow> exportTransactionsPDF rx st uid req
            = ([], Some (AppError ''No transactions found for the specified criteria'' 404)))
   \<and> (snd (exportTransactionsPDF rx st uid req) = None
      \<longrightarrow> (\<exists>r. TableRow r \<in> set (fst (exportTransactionsPDF rx st uid req))))"
proof (intro conjI impI)
  assume "filter (matches rx (userTransactionsQuery uid (exportOptions req))) (transactions st) = []"
  then show "exportTransactionsPDF rx st uid req
            = ([], Some (AppError ''No transactions found for the specified criteria'' 404))"
    by (simp add: exportTransactionsPDF_def exported_listing sort_docs_Nil)
next
  define txns where "txns = take 1000 (sort_docs (sort_le SortDate ''desc'')
      (filter (matches rx (userTransactionsQuery uid (exportOptions req))) (transactions st)))"
  have g: "getUserTransactions rx (transactions st) uid (exportOptions req) = Inr txns"
    by (simp add: exported_listing txns_def)
  assume ok: "snd (exportTransactionsPDF rx st uid req) = None"
  have ne: "txns \<noteq> []"
  proof
    assume "txns = []"
    then have "snd (exportTransactionsPDF rx st uid req) \<noteq> None"
      by (simp add: exportTransactionsPDF_def g)
    with ok show False by simp
  qed
  then have l: "length txns \<noteq> 0" by simp
  from ok have "snd (export_rows (categories st) txns) = None"
    by (simp add: exportTransactionsPDF_def g l Let_def del: length_0_conv)
  from export_rows_has_row [OF this ne] obtain r
    where "TableRow r \<in> set (fst (export_rows (categories st) txns))" ..
  then have "TableRow r \<in> set (fst (exportTransactionsPDF rx st uid req))"
    by (simp add: exportTransactionsPDF_def g l Let_def del: length_0_conv)
  then show "\<exists>r. TableRow r \<in> set (fst (exportTransactionsPDF rx st uid req))" ..
qed

theorem export_empty_fails_witness:
  "filter (matches plain_rx (userTransactionsQuery 8 (exportOptions empty_export_request)))
      (transactions example_store) = []
   \<and> exportTransactionsPDF plain_rx example_store 8 empty_export_request
        = ([], Some (AppError ''No transactions found for the specified criteria'' 404))
   \<and> snd (exportTransactionsPDF plain_rx example_store 7 empty_export_request) = None
   \<and> (\<exists>r. TableRow r \<in> set (fst (exportTransactionsPDF plain_rx example_store 7 empty_export_request)))"
proof -
  have e: "filter (matches plain_rx (userTransactionsQuery 8 (exportOptions empty_export_request)))
      (transactions example_store) = []"
    by code_simp
  have k: "snd (exportTransactionsPDF plain_rx example_store 7 empty_export_request) = None"
    by code_simp
  from export_empty_fails [of plain_rx 8 empty_export_request example_store]
       export_empty_fails [of plain_rx 7 empty_export_request example_store] e k
  show ?thesis by simp
qed

subsection \<open>Amount bounds of 0\<close>

lemma parseFloat_zero: "parseFloat ''0'' = Fin 0"
  by code_simp

lemma listOptions_no_max:
  "listOptions (req\<lparr> r_maxAmount := None \<rparr>) = (listOptions req)\<lparr> o_maxAmount := None \<rparr>"
  by (simp add: listOptions_def)

lemma listOptions_no_min:
  "listOptions (req\<lparr> r_minAmount := None \<rparr>) = (listOptions req)\<lparr> o_minAmount := None \<rparr>"
  by (simp add: listOptions_def)

lemma listed_of_getTransactions:
  "map_sum id resp_transactions (getTransactions rx st uid req)
     = getUserTransactions rx (transactions st) uid (listOptions req)"
  by (cases "getUserTransactions rx (transactions st) uid (listOptions req)")
     (simp_all add: getTransactions_def Let_def)

text \<open>
  In the query builder of the listing an amount bound of 0 is the same as no bound. With \<open>minAmount = 0\<close> or \<open>maxAmount = 0\<close> the query, and so the result, is the
  one built without that bound; in particular \<open>maxAmount = 0\<close> leaves the query without
  an upper bound. Through the handler, the request string \<open>"0"\<close> lists the same
  transactions as a request without the parameter.
\<close>

theorem zero_amount_bound_is_absent:
  "userTransactionsQuery uid (opts\<lparr> o_minAmount := Some (Fin 0) \<rparr>)
     = userTransactionsQuery uid (opts\<lparr> o_minAmount := None \<rparr>)
   \<and> userTransactionsQuery uid (opts\<lparr> o_maxAmount := Some (Fin 0) \<rparr>)
     = userTransactionsQuery uid (opts\<lparr> o_maxAmount := None \<rparr>)
   \<and> getUserTransactions rx txns uid (opts\<lparr> o_minAmount := Some (Fin 0) \<rparr>)
     = getUserTransactions rx txns uid (opts\<lparr> o_minAmount := None \<rparr>)
   \<and> getUserTransactions rx txns uid (opts\<lparr> o_maxAmount := Some (Fin 0) \<rparr>)
     = getUserTransactions rx txns uid (opts\<lparr> o_maxAmount := None \<rparr>)
   \<and> (case q_amount (userTransactionsQuery uid (opts\<lparr> o_maxAmount := Some (Fin 0) \<rparr>)) of
         None \<Rightarrow> True
       | Some r \<Rightarrow> a_lte r = None)
   \<and> map_sum id resp_transactions (getTransactions rx st uid (req\<lparr> r_minAmount := Some ''0'' \<rparr>))
     = map_sum id resp_transactions (getTransactions rx st uid (req\<lparr> r_minAmount := None \<rparr>))
   \<and> map_sum id resp_transactions (getTransactions rx st uid (req\<lparr> r_maxAmount := Some ''0'' \<rparr>))
     = map_sum id resp_transactions (getTransactions rx st uid (req\<lparr> r_maxAmount := None \<rparr>))"
proof -
  have q1: "userTransactionsQuery uid (opts\<lparr> o_minAmount := Some (Fin 0) \<rparr>)
     = userTransactionsQuery uid (opts\<lparr> o_minAmount := None \<rparr>)" for opts
    by (simp add: userTransactionsQuery_def)
  have q2: "userTransactionsQuery uid (opts\<lparr> o_maxAmount := Some (Fin 0) \<rparr>)
     = userTransactionsQuery uid (opts\<lparr> o_maxAmount := None \<rparr>)" for opts
    by (simp add: userTransactionsQuery_def)
  have g1: "getUserTransactions rx txns uid (opts\<lparr> o_minAmount := Some (Fin 0) \<rparr>)
     = getUserTransactions rx txns uid (opts\<lparr> o_minAmount := None \<rparr>)" for opts txns
    by (simp add: getUserTransactions_def q1 Let_def)
  have g2: "getUserTransactions rx txns uid (opts\<lparr> o_maxAmount := Some (Fin 0) \<rparr>)
     = getUserTransactions rx txns uid (opts\<lparr> o_maxAmount := None \<rparr>)" for opts txns
    by (simp add: getUserTransactions_def q2 Let_def)
  have b: "(case q_amount (userTransactionsQuery uid (opts\<lparr> o_maxAmount := Some (Fin 0) \<rparr>)) of
         None \<Rightarrow> True
       | Some r \<Rightarrow> a_lte r = None)"
    by (simp add: userTransactionsQuery_def)
  have l1: "listOptions (req\<lparr> r_minAmount := Some ''0'' \<rparr>) = (listOptions req)\<lparr> o_minAmount := Some (Fin 0) \<rparr>"
    by (simp add: listOptions_def parseFloat_zero)
  have l2: "listOptions (req\<lparr> r_maxAmount := Some ''0'' \<rparr>) = (listOptions req)\<lparr> o_maxAmount := Some (Fin 0) \<rparr>"
    by (simp add: listOptions_def parseFloat_zero)
  have e1: "map_sum id resp_transactions (getTransactions rx st uid (req\<lparr> r_minAmount := Some ''0'' \<rparr>))
     = map_sum id resp_transactions (getTransactions rx st uid (req\<lparr> r_minAmount := None \<rparr>))"
    by (simp only: listed_of_getTransactions l1 g1 listOptions_no_min)
  have e2: "map_sum id resp_transactions (getTransactions rx st uid (req\<lparr> r_maxAmount := Some ''0'' \<rparr>))
     = map_sum id resp_transactions (getTransactions rx st uid (req\<lparr> r_maxAmount := None \<rparr>))"
    by (simp only: listed_of_getTransactions l2 g2 listOptions_no_max)
  from q1 q2 g1 g2 b e1 e2 show ?thesis by blast
qed

theorem zero_amount_bound_is_absent_witness:
  "map_sum id (map t_id)
     (getUserTransactions plain_rx (transactions example_store) 7
        ((listOptions empty_request)\<lparr> o_maxAmount := Some (Fin 0) \<rparr>)) = Inr [3, 2, 1]
   \<and> q_amount (userTransactionsQuery 7 ((listOptions empty_request)\<lparr> o_minAmount := Some (Fin 0) \<rparr>)) = None
   \<and> map_sum id (map t_id \<circ> resp_transactions)
        (getTransactions plain_rx example_store 7 (empty_request\<lparr> r_maxAmount := Some ''0'' \<rparr>)) = Inr [3, 2, 1]"
proof -
  have a: "map_sum id (map t_id)
     (getUserTransactions plain_rx (transactions example_store) 7
        ((listOptions empty_request)\<lparr> o_maxAmount := None \<rparr>)) = Inr [3, 2, 1]"
    by code_simp
  have b: "q_amount (userTransactionsQuery 7 ((listOptions empty_request)\<lparr> o_minAmount := None \<rparr>)) = None"
    by code_simp
  have c: "map_sum id (map t_id) (map_sum id resp_transactions
        (getTransactions plain_rx example_store 7 (empty_request\<lparr> r_maxAmount := None \<rparr>))) = Inr [3, 2, 1]"
    by code_simp
  have d: "map_sum id (map t_id \<circ> resp_transactions) x = map_sum id (map t_id) (map_sum id resp_transactions x)"
    for x :: "error + list_response"
    by (cases x) simp_all
  from zero_amount_bound_is_absent
         [of 7 "listOptions empty_request" plain_rx "transactions example_store" example_store empty_request]
       a b c
  show ?thesis by (simp add: d)
qed



subsection \<open>Default categories and the delete operations\<close>

lemma filter_delete_first:
  assumes "find P xs = Some x" and "\<not> Q x"
  shows "filter Q (delete_first P xs) = filter Q xs"
  using assms by (induction xs) (auto split: if_splits)

lemma filter_not_bulk_deletable:
  "filter (\<lambda>c. \<not> bulk_deletable uid ids c \<and> c_isDefault c) cs = filter c_isDefault cs"
  by (induction cs) (auto simp: bulk_deletable_def)

text \<open>
  Claim C10: for every store, caller and input, the default categories after
  \<open>deleteCategory\<close> and after \<open>bulkDeleteCategories\<close> are the default categories before,
  whether the operation succeeds or fails.
\<close>

theorem deletes_keep_default_categories:
  "default_categories (snd (deleteCategory st uid i)) = default_categories st
   \<and> default_categories (snd (bulkDeleteCategories st uid categoryIds)) = default_categories st"
proof
  show "default_categories (snd (deleteCategory st uid i)) = default_categories st"
  proof (cases "findCategoryById (categories st) i")
    case None
    then show ?thesis by (simp add: deleteCategory_def)
  next
    case (Some c)
    then have f: "find (\<lambda>c. c_id c = i) (categories st) = Some c"
      by (simp add: findCategoryById_def)
    show ?thesis
      using Some filter_delete_first [OF f, of c_isDefault]
      by (simp add: deleteCategory_def default_categories_def)
  qed
next
  show "default_categories (snd (bulkDeleteCategories st uid categoryIds)) = default_categories st"
    by (cases categoryIds)
       (simp_all add: bulkDeleteCategories_def default_categories_def filter_not_bulk_deletable
          del: length_0_conv length_greater_0_conv)
qed

theorem deletes_keep_default_categories_witness:
  "fst (deleteCategory seeded_store 7 3) = Inr ()
   \<and> map c_id (categories (snd (deleteCategory seeded_store 7 3))) = [1, 2, 4]
   \<and> default_categories (snd (deleteCategory seeded_store 7 3)) = default_categories seeded_store
   \<and> fst (bulkDeleteCategories seeded_store 7 (Some [3])) = Inr 1
   \<and> map c_id (categories (snd (bulkDeleteCategories seeded_store 7 (Some [3])))) = [1, 2, 4]
   \<and> default_categories (snd (bulkDeleteCategories seeded_store 7 (Some [3]))) = default_categories seeded_store
   \<and> fst (deleteCategory seeded_store 7 1) = Inl (AppError ''You can only delete your own custom categories'' 403)"
proof -
  have a: "fst (deleteCategory seeded_store 7 3) = Inr ()" by code_simp
  have b: "map c_id (categories (snd (deleteCategory seeded_store 7 3))) = [1, 2, 4]" by code_simp
  have c: "fst (bulkDeleteCategories seeded_store 7 (Some [3])) = Inr 1" by code_simp
  have d: "map c_id (categories (snd (bulkDeleteCategories seeded_store 7 (Some [3])))) = [1, 2, 4]" by code_simp
  have e: "fst (deleteCategory seeded_store 7 1) = Inl (AppError ''You can only delete your own custom categories'' 403)"
    by code_simp
  from deletes_keep_default_categories [of seeded_store 7 3 "Some [3]"] a b c d e
  show ?thesis by simp
qed

subsection \<open>The count of the listing endpoint\<close>

text \<open>
  Claim C1 at the request \<open>maxAmount=0\<close>, which passes validation: the listing returns the
  three transactions of the user, and the count for the same request is 0. The count query
  tests the raw string \<open>"0"\<close>, which is truthy, and gets the bound \<open>amount \<le> 0\<close>; the
  listing query tests the parsed number 0 and gets no bound.
\<close>

theorem count_disagrees_with_listing:
  "validateQueryFilters (empty_request\<lparr> r_maxAmount := Some ''0'' \<rparr>)
   \<and> map_sum id (\<lambda>r. (map t_id (resp_transactions r), totalTransactions (resp_pagination r)))
        (getTransactions_route plain_rx example_store 7 (empty_request\<lparr> r_maxAmount := Some ''0'' \<rparr>))
      = Inr ([3, 2, 1], 0)"
  by code_simp

subsection \<open>Creating a transaction\<close>

lemma findCategoryById_id: "findCategoryById cs i = Some c \<Longrightarrow> c_id c = i"
  unfolding findCategoryById_def by (auto dest: find_Some_holds)

lemma find_replace_category:
  "findCategoryById (replace_category c cs) j =
     (if j = c_id c then map_option (\<lambda>_. c) (findCategoryById cs j) else findCategoryById cs j)"
  by (induction cs) (auto simp: findCategoryById_def)

lemma cat_type_name_both: "(cat_type_name ty = ''both'') = (ty = CBoth)"
  by (cases ty) simp_all

lemma Transaction_create_Inl:
  assumes "fst (Transaction_create now st uid d) = Inl e"
  shows "snd (Transaction_create now st uid d) = st"
  using assms
  by (auto simp: Transaction_create_def Let_def split: sum.splits)

lemma Transaction_create_Inr:
  assumes "fst (Transaction_create now st uid d) = Inr t"
  obtains t0 c where
    "validate_new_transaction now uid d = Inr t0"
    "findCategoryById (categories st) (t_category t0) = Some c"
    "compatible c t0"
    "t = t0\<lparr> t_id := fresh_id (map t_id (transactions st)) \<rparr>"
    "snd (Transaction_create now st uid d) =
       \<lparr> categories = replace_category (c\<lparr> c_usageCount := c_usageCount c + 1, c_lastUsed := Some now \<rparr>)
                         (categories st),
         transactions = transactions st @ [t] \<rparr>"
proof -
  from assms obtain t0 where v: "validate_new_transaction now uid d = Inr t0"
    by (auto simp: Transaction_create_def split: sum.splits)
  from assms v obtain cs' where h: "transaction_preSave now (categories st) t0 = Inr cs'"
    by (auto simp: Transaction_create_def split: sum.splits)
  from h obtain c where f: "findCategoryById (categories st) (t_category t0) = Some c"
    by (auto simp: transaction_preSave_def split: option.splits)
  from h f have k: "compatible c t0"
    by (auto simp: transaction_preSave_def compatible_def cat_type_name_both split: if_splits)
  from h f have r: "cs' = replace_category (c\<lparr> c_usageCount := c_usageCount c + 1, c_lastUsed := Some now \<rparr>)
                         (categories st)"
    by (auto simp: transaction_preSave_def incrementUsage_def category_save_def
             split: if_splits option.splits)
  from assms v h have t: "t = t0\<lparr> t_id := fresh_id (map t_id (transactions st)) \<rparr>"
    by (simp add: Transaction_create_def Let_def)
  from v h r t have s: "snd (Transaction_create now st uid d) =
       \<lparr> categories = replace_category (c\<lparr> c_usageCount := c_usageCount c + 1, c_lastUsed := Some now \<rparr>)
                         (categories st),
         transactions = transactions st @ [t] \<rparr>"
    by (simp add: Transaction_create_def Let_def)
  from v f k t s show thesis by (rule that)
qed

lemma Transaction_create_usage:
  assumes "fst (Transaction_create now st uid d) = Inr t"
  shows "(\<exists>n. usageCount_of st (t_category t) = Some n
            \<and> usageCount_of (snd (Transaction_create now st uid d)) (t_category t) = Some (n + 1))
         \<and> (\<forall>j. j \<noteq> t_category t
               \<longrightarrow> usageCount_of (snd (Transaction_create now st uid d)) j = usageCount_of st j)"
proof -
  from assms obtain t0 c where
    f: "findCategoryById (categories st) (t_category t0) = Some c"
    and t: "t = t0\<lparr> t_id := fresh_id (map t_id (transactions st)) \<rparr>"
    and s: "snd (Transaction_create now st uid d) =
       \<lparr> categories = replace_category (c\<lparr> c_usageCount := c_usageCount c + 1, c_lastUsed := Some now \<rparr>)
                         (categories st),
         transactions = transactions st @ [t] \<rparr>"
    by (rule Transaction_create_Inr)
  from f have i: "c_id c = t_category t0" by (rule findCategoryById_id)
  from t have ct: "t_category t = t_category t0" by simp
  have a: "usageCount_of st (t_category t) = Some (c_usageCount c)"
    using f ct by (simp add: usageCount_of_def)
  have b: "usageCount_of (snd (Transaction_create now st uid d)) (t_category t) = Some (c_usageCount c + 1)"
    using f ct i by (simp add: usageCount_of_def s find_replace_category)
  have c: "usageCount_of (snd (Transaction_create now st uid d)) j = usageCount_of st j"
    if "j \<noteq> t_category t" for j
    using that ct i by (simp add: usageCount_of_def s find_replace_category)
  from a b c show ?thesis by blast
qed

lemma createTransaction_Inr:
  assumes "fst (createTransaction now st uid body) = Inr t"
  shows "createTransaction now st uid body = Transaction_create now st uid body"
  using assms
  by (auto simp: createTransaction_def split: option.splits if_splits)

lemma createTransactionFromOCR_Inr:
  assumes "fst (createTransactionFromOCR now st uid transactionData) = Inr t"
  shows "\<exists>d. transactionData = Some d
           \<and> createTransactionFromOCR now st uid transactionData = Transaction_create now st uid d"
  using assms
  by (auto simp: createTransactionFromOCR_def split: option.splits if_splits)

text \<open>
  Claim C8: when \<open>createTransaction\<close> (or the OCR-assisted creation) succeeds with a
  transaction of category \<open>c\<close>, the usage count of \<open>c\<close> after the operation is its usage
  count before plus 1, and the usage count of every other category is unchanged.
\<close>

theorem creation_increments_usage_once:
  "(fst (createTransaction now st uid body) = Inr t
      \<longrightarrow> (\<exists>n. usageCount_of st (t_category t) = Some n
              \<and> usageCount_of (snd (createTransaction now st uid body)) (t_category t) = Some (n + 1))
          \<and> (\<forall>j. j \<noteq> t_category t
                \<longrightarrow> usageCount_of (snd (createTransaction now st uid body)) j = usageCount_of st j))
   \<and> (fst (createTransactionFromOCR now st uid transactionData) = Inr t'
      \<longrightarrow> (\<exists>n. usageCount_of st (t_category t') = Some n
              \<and> usageCount_of (snd (createTransactionFromOCR now st uid transactionData)) (t_category t')
                  = Some (n + 1))
          \<and> (\<forall>j. j \<noteq> t_category t'
                \<longrightarrow> usageCount_of (snd (createTransactionFromOCR now st uid transactionData)) j
                    = usageCount_of st j))"
proof (intro conjI impI)
  assume a: "fst (createTransaction now st uid body) = Inr t"
  then have e: "createTransaction now st uid body = Transaction_create now st uid body"
    by (rule createTransaction_Inr)
  from a e have "fst (Transaction_create now st uid body) = Inr t" by simp
  from Transaction_create_usage [OF this] e
  show "\<exists>n. usageCount_of st (t_category t) = Some n
              \<and> usageCount_of (snd (createTransaction now st uid body)) (t_category t) = Some (n + 1)"
    and "\<forall>j. j \<noteq> t_category t
                \<longrightarrow> usageCount_of (snd (createTransaction now st uid body)) j = usageCount_of st j"
    by simp_all
next
  assume a: "fst (createTransactionFromOCR now st uid transactionData) = Inr t'"
  then obtain d where
    e: "createTransactionFromOCR now st uid transactionData = Transaction_create now st uid d"
    using createTransactionFromOCR_Inr by blast
  from a e have "fst (Transaction_create now st uid d) = Inr t'" by simp
  from Transaction_create_usage [OF this] e
  show "\<exists>n. usageCount_of st (t_category t') = Some n
              \<and> usageCount_of (snd (createTransactionFromOCR now st uid transactionData)) (t_category t')
                  = Some (n + 1)"
    and "\<forall>j. j \<noteq> t_category t'
                \<longrightarrow> usageCount_of (snd (createTransactionFromOCR now st uid transactionData)) j
                    = usageCount_of st j"
    by simp_all
qed

theorem creation_increments_usage_once_witness:
  "fst (createTransaction 1000 seeded_store 7 groceries_expense) = Inr (example_txn 1 5 TExpense 3 100)
   \<and> usageCount_of seeded_store 3 = Some 0
   \<and> usageCount_of (snd (createTransaction 1000 seeded_store 7 groceries_expense)) 3 = Some 1
   \<and> usageCount_of (snd (createTransaction 1000 seeded_store 7 groceries_expense)) 1 = Some 0
   \<and> fst (createTransactionFromOCR 1000 seeded_store 7 (Some groceries_expense))
        = Inr (example_txn 1 5 TExpense 3 100)
   \<and> usageCount_of (snd (createTransactionFromOCR 1000 seeded_store 7 (Some groceries_expense))) 3 = Some 1"
proof -
  have a: "fst (createTransaction 1000 seeded_store 7 groceries_expense) = Inr (example_txn 1 5 TExpense 3 100)"
    by code_simp
  have b: "fst (createTransactionFromOCR 1000 seeded_store 7 (Some groceries_expense))
        = Inr (example_txn 1 5 TExpense 3 100)"
    by code_simp
  have c: "t_category (example_txn 1 5 TExpense 3 100) = 3"
    by (simp add: example_txn_def)
  have u: "usageCount_of seeded_store 3 = Some 0" by code_simp
  have v: "usageCount_of seeded_store 1 = Some 0" by code_simp
  from creation_increments_usage_once
         [of 1000 seeded_store 7 groceries_expense "example_txn 1 5 TExpense 3 100"
             "Some groceries_expense" "example_txn 1 5 TExpense 3 100"]
       a b c u v
  show ?thesis by auto
qed

subsection \<open>Type compatibility\<close>

lemma type_compatible_iff:
  "type_compatible st =
     (\<forall>t \<in> set (transactions st).
        case findCategoryById (categories st) (t_category t) of None \<Rightarrow> True | Some c \<Rightarrow> compatible c t)"
  by (simp add: type_compatible_def list_all_iff)

lemma compatible_cong:
  assumes "map_option c_type a = map_option c_type b"
  shows "(case a of None \<Rightarrow> True | Some c \<Rightarrow> compatible c t)
       = (case b of None \<Rightarrow> True | Some c \<Rightarrow> compatible c t)"
  using assms by (auto simp: compatible_def split: option.splits)

lemma Transaction_create_compatible:
  assumes "type_compatible st"
  shows "type_compatible (snd (Transaction_create now st uid d))"
proof (cases "fst (Transaction_create now st uid d)")
  case (Inl e)
  then have "snd (Transaction_create now st uid d) = st" by (rule Transaction_create_Inl)
  with assms show ?thesis by simp
next
  case (Inr t)
  then obtain t0 c where
    f: "findCategoryById (categories st) (t_category t0) = Some c"
    and k: "compatible c t0"
    and t: "t = t0\<lparr> t_id := fresh_id (map t_id (transactions st)) \<rparr>"
    and s: "snd (Transaction_create now st uid d) =
       \<lparr> categories = replace_category (c\<lparr> c_usageCount := c_usageCount c + 1, c_lastUsed := Some now \<rparr>)
                         (categories st),
         transactions = transactions st @ [t] \<rparr>"
    by (rule Transaction_create_Inr)
  let ?c' = "c\<lparr> c_usageCount := c_usageCount c + 1, c_lastUsed := Some now \<rparr>"
  let ?cs' = "replace_category ?c' (categories st)"
  from f have i: "c_id c = t_category t0" by (rule findCategoryById_id)
  have ty: "map_option c_type (findCategoryById ?cs' j) = map_option c_type (findCategoryById (categories st) j)" for j
    using f i by (auto simp: find_replace_category)
  have old: "(case findCategoryById ?cs' (t_category u) of None \<Rightarrow> True | Some c \<Rightarrow> compatible c u)"
    if "u \<in> set (transactions st)" for u
  proof -
    from assms that
    have "(case findCategoryById (categories st) (t_category u) of None \<Rightarrow> True | Some c \<Rightarrow> compatible c u)"
      by (simp add: type_compatible_iff)
    with compatible_cong [OF ty [of "t_category u"], of u] show ?thesis by simp
  qed
  have new: "(case findCategoryById ?cs' (t_category t) of None \<Rightarrow> True | Some c \<Rightarrow> compatible c t)"
    using f i k t by (simp add: find_replace_category compatible_def)
  from old new show ?thesis
    by (auto simp: type_compatible_iff s)
qed

lemma createTransaction_cases:
  "snd (createTransaction now st uid body) = st
   \<or> createTransaction now st uid body = Transaction_create now st uid body"
  by (auto simp: createTransaction_def split: option.splits)

lemma createTransactionFromOCR_cases:
  "snd (createTransactionFromOCR now st uid transactionData) = st
   \<or> (\<exists>d. createTransactionFromOCR now st uid transactionData = Transaction_create now st uid d)"
  by (auto simp: createTransactionFromOCR_def split: option.splits)

lemma set_delete_first: "set (delete_first P xs) \<subseteq> set xs"
  by (induction xs) auto

lemma find_delete_first_other:
  assumes "j \<noteq> i"
  shows "findCategoryById (delete_first (\<lambda>c. c_id c = i) cs) j = findCategoryById cs j"
  using assms by (induction cs) (auto simp: findCategoryById_def)

lemma find_filter_kept:
  assumes "\<And>c. c_id c = j \<Longrightarrow> P c"
  shows "findCategoryById (filter P cs) j = findCategoryById cs j"
  using assms by (induction cs) (auto simp: findCategoryById_def)

lemma deleteTransaction_compatible:
  assumes "type_compatible st"
  shows "type_compatible (snd (deleteTransaction st uid i))"
  using assms set_delete_first [of "\<lambda>t. t_id t = i \<and> t_userId t = uid" "transactions st"]
  by (auto simp: deleteTransaction_def type_compatible_iff split: option.splits)

lemma deleteCategory_compatible:
  assumes "type_compatible st"
  shows "type_compatible (snd (deleteCategory st uid i))"
proof (cases "fst (deleteCategory st uid i)")
  case (Inl e)
  then have "snd (deleteCategory st uid i) = st"
    by (auto simp: deleteCategory_def split: option.splits if_splits)
  with assms show ?thesis by simp
next
  case (Inr u)
  then have s: "snd (deleteCategory st uid i)
                  = st\<lparr> categories := delete_first (\<lambda>c. c_id c = i) (categories st) \<rparr>"
    and n: "filter (\<lambda>t. t_category t = i) (transactions st) = []"
    by (auto simp: deleteCategory_def split: option.splits if_splits)
  have "t_category t \<noteq> i" if "t \<in> set (transactions st)" for t
    using n that by (auto simp: filter_empty_conv)
  with assms show ?thesis
    by (auto simp: type_compatible_iff s find_delete_first_other)
qed

lemma bulkDeleteCategories_compatible:
  assumes "type_compatible st"
  shows "type_compatible (snd (bulkDeleteCategories st uid categoryIds))"
proof (cases "fst (bulkDeleteCategories st uid categoryIds)")
  case (Inl e)
  then have "snd (bulkDeleteCategories st uid categoryIds) = st"
    by (auto simp: bulkDeleteCategories_def split: option.splits if_splits)
  with assms show ?thesis by simp
next
  case (Inr k)
  then obtain ids where
    s: "snd (bulkDeleteCategories st uid categoryIds)
          = st\<lparr> categories := filter (\<lambda>c. \<not> bulk_deletable uid ids c) (categories st) \<rparr>"
    and n: "filter (\<lambda>t. t_category t \<in> set ids) (transactions st) = []"
    by (auto simp: bulkDeleteCategories_def split: option.splits if_splits)
  have o: "t_category t \<notin> set ids" if "t \<in> set (transactions st)" for t
    using n that by (auto simp: filter_empty_conv)
  have "findCategoryById (filter (\<lambda>c. \<not> bulk_deletable uid ids c) (categories st)) (t_category t)
          = findCategoryById (categories st) (t_category t)"
    if "t \<in> set (transactions st)" for t
    using o [OF that] by (intro find_filter_kept) (auto simp: bulk_deletable_def)
  with assms show ?thesis
    by (auto simp: type_compatible_iff s)
qed

lemma find_update_first:
  assumes "\<And>c. c_id (f c) = c_id c"
  shows "findCategoryById (update_first (\<lambda>c. c_id c = i) f cs) i = map_option f (findCategoryById cs i)"
  using assms by (induction cs) (auto simp: findCategoryById_def)

lemma first_error_None: "first_error es = None \<Longrightarrow> \<forall>e \<in> set es. e = None"
  by (induction es rule: first_error.induct) auto

lemma updateCategory_sets_type:
  assumes "fst (updateCategory st uid i body) = Inr r" and "b_type body = Some s"
  shows "(\<exists>ty. parse_cat_type s = Some ty
             \<and> map_option c_type (findCategoryById (categories (snd (updateCategory st uid i body))) i) = Some ty)
         \<and> transactions (snd (updateCategory st uid i body)) = transactions st"
proof -
  from assms(1) obtain c where f: "findCategoryById (categories st) i = Some c"
    by (auto simp: updateCategory_def split: option.splits)
  from assms(1) f have v: "validate_cat_update body = None"
    and s: "snd (updateCategory st uid i body)
              = st\<lparr> categories := update_first (\<lambda>c. c_id c = i) (apply_cat_update body) (categories st) \<rparr>"
    by (auto simp: updateCategory_def Let_def split: option.splits if_splits dest: first_error_None)
  from v assms(2) obtain ty where p: "parse_cat_type s = Some ty"
    by (auto simp: validate_cat_update_def split: option.splits if_splits)
  have "c_id (apply_cat_update body c) = c_id c" for c
    by (simp add: apply_cat_update_def)
  then have "findCategoryById (update_first (\<lambda>c. c_id c = i) (apply_cat_update body) (categories st)) i
               = map_option (apply_cat_update body) (findCategoryById (categories st) i)"
    by (rule find_update_first)
  with f p assms(2) s show ?thesis
    by (simp add: apply_cat_update_def)
qed

text \<open>
  Claim C2, as the code has it: type compatibility of a store is kept by both ways of
  creating a transaction and by the delete operations. \<open>updateCategory\<close> does not look at
  the transactions: when it succeeds with a type in the body, the category has that type
  afterwards and the transactions are the same.
\<close>

theorem type_compatibility_preserved:
  assumes "type_compatible st"
  shows "type_compatible (snd (createTransaction now st uid body))
       \<and> type_compatible (snd (createTransactionFromOCR now st uid transactionData))
       \<and> type_compatible (snd (deleteTransaction st uid i))
       \<and> type_compatible (snd (deleteCategory st uid i))
       \<and> type_compatible (snd (bulkDeleteCategories st uid categoryIds))
       \<and> (fst (updateCategory st uid i cbody) = Inr r \<and> b_type cbody = Some s
            \<longrightarrow> (\<exists>ty. parse_cat_type s = Some ty
                     \<and> map_option c_type
                          (findCategoryById (categories (snd (updateCategory st uid i cbody))) i) = Some ty)
                \<and> transactions (snd (updateCategory st uid i cbody)) = transactions st)"
proof (intro conjI impI)
  show "type_compatible (snd (createTransaction now st uid body))"
    using createTransaction_cases [of now st uid body] assms Transaction_create_compatible [OF assms]
    by auto
  show "type_compatible (snd (createTransactionFromOCR now st uid transactionData))"
    using createTransactionFromOCR_cases [of now st uid transactionData] assms
      Transaction_create_compatible [OF assms]
    by auto
  show "type_compatible (snd (deleteTransaction st uid i))"
    using assms by (rule deleteTransaction_compatible)
  show "type_compatible (snd (deleteCategory st uid i))"
    using assms by (rule deleteCategory_compatible)
  show "type_compatible (snd (bulkDeleteCategories st uid categoryIds))"
    using assms by (rule bulkDeleteCategories_compatible)
next
  assume a: "fst (updateCategory st uid i cbody) = Inr r \<and> b_type cbody = Some s"
  then show "\<exists>ty. parse_cat_type s = Some ty
                     \<and> map_option c_type
                          (findCategoryById (categories (snd (updateCategory st uid i cbody))) i) = Some ty"
    using updateCategory_sets_type [of st uid i cbody r s] by blast
  from a show "transactions (snd (updateCategory st uid i cbody)) = transactions st"
    using updateCategory_sets_type [of st uid i cbody r s] by blast
qed

theorem type_compatibility_preserved_witness:
  "type_compatible seeded_store
   \<and> fst (createTransaction 1000 seeded_store 7 groceries_expense) = Inr (example_txn 1 5 TExpense 3 100)
   \<and> type_compatible (snd (createTransaction 1000 seeded_store 7 groceries_expense))
   \<and> type_compatible (snd (createTransactionFromOCR 1000 seeded_store 7 (Some groceries_expense)))
   \<and> type_compatible (snd (deleteCategory seeded_store 7 3))
   \<and> fst (updateCategory seeded_store 7 3 groceries_to_income)
        = Inr (Some (user_category 3 ''Groceries'' CIncome 7))
   \<and> b_type groceries_to_income = Some ''income''
   \<and> map_option c_type (findCategoryById (categories (snd (updateCategory seeded_store 7 3 groceries_to_income))) 3)
        = Some CIncome
   \<and> transactions (snd (updateCategory seeded_store 7 3 groceries_to_income)) = transactions seeded_store"
proof -
  have h: "type_compatible seeded_store" by code_simp
  have a: "fst (createTransaction 1000 seeded_store 7 groceries_expense) = Inr (example_txn 1 5 TExpense 3 100)"
    by code_simp
  have u: "fst (updateCategory seeded_store 7 3 groceries_to_income)
        = Inr (Some (user_category 3 ''Groceries'' CIncome 7))"
    by code_simp
  have b: "b_type groceries_to_income = Some ''income''" by code_simp
  have p: "parse_cat_type ''income'' = Some CIncome" by code_simp
  from type_compatibility_preserved
         [OF h, of 1000 7 groceries_expense "Some groceries_expense" 3 "Some [3]" groceries_to_income
            "Some (user_category 3 ''Groceries'' CIncome 7)" "''income''"]
       h a u b p
  show ?thesis by auto
qed

text \<open>
  Claim C2 as stated fails for \<open>updateCategory\<close>: after an expense is created in the
  user's expense category 3, the update of category 3 to type \<open>income\<close> succeeds and
  leaves an expense transaction in an income category.
\<close>

theorem updateCategory_breaks_compatibility_counterexample:
  "fst (createTransaction 1000 seeded_store 7 groceries_expense) = Inr (example_txn 1 5 TExpense 3 100)
   \<and> type_compatible seeded_store
   \<and> type_compatible (snd (createTransaction 1000 seeded_store 7 groceries_expense))
   \<and> fst (updateCategory (snd (createTransaction 1000 seeded_store 7 groceries_expense)) 7 3 groceries_to_income)
       = Inr (Some ((user_category 3 ''Groceries'' CIncome 7)\<lparr> c_usageCount := 1, c_lastUsed := Some 1000 \<rparr>))
   \<and> \<not> type_compatible
         (snd (updateCategory (snd (createTransaction 1000 seeded_store 7 groceries_expense)) 7 3
                 groceries_to_income))"
  by code_simp

text \<open>
  \<open>updateTransaction\<close> writes through \<open>findByIdAndUpdate\<close>, on which the pre-save hook
  with the type check does not run: the same expense can be turned into an income.
\<close>

lemma updateTransaction_runs_no_hook:
  "type_compatible (snd (createTransaction 1000 seeded_store 7 groceries_expense))
   \<and> fst (updateTransaction 1000 (snd (createTransaction 1000 seeded_store 7 groceries_expense)) 7 1
             (groceries_expense\<lparr> n_type := Some ''income'' \<rparr>))
       = Inr (Some (example_txn 1 5 TIncome 3 100))
   \<and> \<not> type_compatible
         (snd (updateTransaction 1000 (snd (createTransaction 1000 seeded_store 7 groceries_expense)) 7 1
                 (groceries_expense\<lparr> n_type := Some ''income'' \<rparr>)))"
  by code_simp

subsection \<open>What the totals are\<close>

lemma or0_id: "or0 x = x"
  by (simp add: or0_def)

lemma fold_apply_stat_income:
  "sr_totalIncome (fold apply_stat (map mk tys) s) =
     (if TIncome \<in> set tys then s_totalAmount (mk TIncome) else sr_totalIncome s)"
  if "\<And>ty. s_type (mk ty) = ty"
  using that
proof (induction tys arbitrary: s)
  case Nil
  then show ?case by simp
next
  case (Cons ty tys)
  then show ?case
    by (cases ty) (auto simp: apply_stat_def or0_id)
qed

lemma fold_apply_stat_expense:
  "sr_totalExpenses (fold apply_stat (map mk tys) s) =
     (if TExpense \<in> set tys then s_totalAmount (mk TExpense) else sr_totalExpenses s)"
  if "\<And>ty. s_type (mk ty) = ty"
  using that
proof (induction tys arbitrary: s)
  case Nil
  then show ?case by simp
next
  case (Cons ty tys)
  then show ?case
    by (cases ty) (auto simp: apply_stat_def or0_id)
qed

lemma sum_filter_none:
  assumes "ty \<notin> t_type ` set xs"
  shows "sum_list (map t_amount (filter (\<lambda>t. t_type t = ty) xs)) = 0"
proof -
  from assms have "filter (\<lambda>t. t_type t = ty) xs = []"
    by (auto simp: filter_empty_conv)
  then show ?thesis by simp
qed

text \<open>
  The two totals of the statistics are the sums of the amounts of the owner's income and
  expense transactions in the date range.
\<close>

lemma stats_totals:
  "sr_totalIncome (getTransactionStats st uid startDate endDate)
     = sum_list (map t_amount (filter (\<lambda>t. t_type t = TIncome)
                                 (filter (matchStage uid startDate endDate) (transactions st))))
   \<and> sr_totalExpenses (getTransactionStats st uid startDate endDate)
     = sum_list (map t_amount (filter (\<lambda>t. t_type t = TExpense)
                                 (filter (matchStage uid startDate endDate) (transactions st))))"
proof -
  define xs where "xs = filter (matchStage uid startDate endDate) (transactions st)"
  define mk where "mk = (\<lambda>ty. let g = filter (\<lambda>t. t_type t = ty) xs
                in \<lparr> s_type = ty,
                     s_totalAmount = sum_list (map t_amount g),
                     s_count = length g,
                     s_avgAmount = sum_list (map t_amount g) / of_nat (length g) \<rparr>)"
  have g: "group_by_type xs = map mk (remdups (map t_type xs))"
    by (simp add: group_by_type_def mk_def)
  have m: "s_type (mk ty) = ty" for ty
    by (simp add: mk_def Let_def)
  have a: "s_totalAmount (mk ty) = sum_list (map t_amount (filter (\<lambda>t. t_type t = ty) xs))" for ty
    by (simp add: mk_def Let_def)
  show ?thesis
  proof (cases "xs = []")
    case True
    then show ?thesis
      using xs_def
      by (simp add: getTransactionStats_def Transaction_getTransactionStats_def group_by_type_def)
  next
    case False
    then have ne: "group_by_type xs \<noteq> []"
      by (simp add: g)
    have i: "sr_totalIncome (getTransactionStats st uid startDate endDate)
               = (if TIncome \<in> t_type ` set xs then s_totalAmount (mk TIncome) else 0)"
      using ne m
      by (simp add: getTransactionStats_def Transaction_getTransactionStats_def Let_def
            xs_def [symmetric] g fold_apply_stat_income)
    have e: "sr_totalExpenses (getTransactionStats st uid startDate endDate)
               = (if TExpense \<in> t_type ` set xs then s_totalAmount (mk TExpense) else 0)"
      using ne m
      by (simp add: getTransactionStats_def Transaction_getTransactionStats_def Let_def
            xs_def [symmetric] g fold_apply_stat_expense)
    from i e show ?thesis
      by (simp add: a sum_filter_none xs_def [symmetric])
  qed
qed

end
